theory Spec2Isabelle
  imports Complex_Main "HOL-Library.Sublist" "HOL-Library.Multiset"
begin

section \<open>Python values shared by the four scrapers\<close>

text \<open>
  Exceptions are values.  Each constructor is one Python exception class that the scrapers
  or their libraries raise, with its message; all of them are subclasses of Python's
  \<open>Exception\<close>, which is what the \<open>except Exception\<close> handlers of the scrapers catch.
  \<open>MarkupError\<close> is raised by the rich library when a log line is not well-formed console
  markup, \<open>ParserRejectedMarkup\<close> by BeautifulSoup when its parser gives up on a document.
\<close>

datatype exn =
    ValueError string
  | TypeError string
  | ConnectionError string
  | RuntimeError string
  | RecursionError string
  | RequestException string
  | KeyError string
  | OverflowError string
  | MarkupError string
  | ParserRejectedMarkup string

text \<open>\<open>str(e)\<close>: the message; a \<open>KeyError\<close> shows its key in quotes.\<close>

fun exn_message :: "exn \<Rightarrow> string" where
  "exn_message (ValueError m) = m"
| "exn_message (TypeError m) = m"
| "exn_message (ConnectionError m) = m"
| "exn_message (RuntimeError m) = m"
| "exn_message (RecursionError m) = m"
| "exn_message (RequestException m) = m"
| "exn_message (KeyError k) = [CHR 0x27] @ k @ [CHR 0x27]"
| "exn_message (OverflowError m) = m"
| "exn_message (MarkupError m) = m"
| "exn_message (ParserRejectedMarkup m) = m"

section \<open>admetlab.py: construction and batching\<close>

record AdmetLabScraper =
  al_max_workers :: int
  max_batch_size :: int

text \<open>\<open>AdmetLabScraper.__init__\<close> (admetlab.py, lines 83 to 100).\<close>

definition AdmetLabScraper_init :: "int \<Rightarrow> int \<Rightarrow> exn + AdmetLabScraper" where
  "AdmetLabScraper_init max_workers_arg max_batch_size_arg =
     (if max_batch_size_arg > 100 then Inl (ValueError ''Maximum batch size is 100.'')
      else if max_batch_size_arg < 1 then Inl (ValueError ''Minimum batch size is 1.'')
      else Inr \<lparr>al_max_workers = max_workers_arg, max_batch_size = max_batch_size_arg\<rparr>)"

text \<open>
  Python's \<open>range(start, stop, step)\<close> for a positive step, as the loop it is: the next
  index is produced while it is below \<open>stop\<close>.
\<close>

function range_from :: "nat \<Rightarrow> nat \<Rightarrow> nat \<Rightarrow> nat list" where
  "range_from i stop step =
     (if step = 0 \<or> stop \<le> i then [] else i # range_from (i + step) stop step)"
  by pat_completeness auto
termination
  by (relation "measure (\<lambda>(i, stop, step). stop - i)") auto

declare range_from.simps [simp del]

text \<open>
  \<open>range(0, stop, step)\<close> with an integer step: a zero step raises \<open>ValueError\<close>, a
  negative one gives the empty range.
\<close>

definition py_range :: "nat \<Rightarrow> int \<Rightarrow> exn + nat list" where
  "py_range stop step =
     (if step = 0 then Inl (ValueError ''range() arg 3 must not be zero'')
      else if step < 0 then Inr []
      else Inr (range_from 0 stop (nat step)))"

text \<open>The slice \<open>xs[i:j]\<close> for \<open>0 \<le> i \<le> j\<close>: it stops at the end of the list.\<close>

definition py_slice :: "'a list \<Rightarrow> nat \<Rightarrow> nat \<Rightarrow> 'a list" where
  "py_slice xs i j = take (j - i) (drop i xs)"

text \<open>
  The batching step of \<open>AdmetLabScraper.run\<close> (admetlab.py, line 250):
  \<^verbatim>\<open>[smiles_list[i:i + self.max_batch_size] for i in range(0, len(smiles_list), self.max_batch_size)]\<close>
\<close>

definition chunks :: "AdmetLabScraper \<Rightarrow> 'a list \<Rightarrow> exn + 'a list list" where
  "chunks self smiles_list =
     (case py_range (length smiles_list) (max_batch_size self) of
        Inl e \<Rightarrow> Inl e
      | Inr idx \<Rightarrow>
          Inr (map (\<lambda>i. py_slice smiles_list i (i + nat (max_batch_size self))) idx))"

section \<open>The collaborators: HTTP, documents, tables\<close>

text \<open>
  One HTTP round trip either raises (timeout, refused connection) or returns a response
  with its status code, the reason phrase of its status line and its body text.
\<close>

datatype http_result = Raised exn | Response int string string

text \<open>What a job does to the outside world: a network call to a URL, or a sleep in seconds.\<close>

datatype event = Request string | Sleep int

text \<open>
  A parsed document, as BeautifulSoup holds it: a tag with its name, attributes and children,
  a text node, or a comment (standing for the string classes that \<open>get_text\<close> leaves
  out).  The soup itself is the list of top-level nodes.  Characters are \<^typ>\<open>char\<close>.
\<close>

datatype node =
    Tag string "(string \<times> string) list" "node list"
  | NavigableString string
  | Comment string

text \<open>A table cell: \<open>None\<close>, a string, a BeautifulSoup \<open>ResultSet\<close>, or a list of dicts.\<close>

datatype cell =
    Null
  | Str string
  | ResultSet "node list"
  | Dicts "(string \<times> string) list list"

text \<open>A pandas DataFrame: the column labels and the rows, each row aligned with the labels.\<close>

record frame =
  columns :: "string list"
  rows :: "cell list list"

text \<open>\<open>pd.DataFrame()\<close> and the \<open>.empty\<close> property (some axis has length 0).\<close>

definition empty_frame :: frame where
  "empty_frame = \<lparr>columns = [], rows = []\<rparr>"

definition df_empty :: "frame \<Rightarrow> bool" where
  "df_empty df = (columns df = [] \<or> rows df = [])"

definition cell_at :: "string list \<Rightarrow> cell list \<Rightarrow> string \<Rightarrow> cell" where
  "cell_at cols row c = (case map_of (zip cols row) c of None \<Rightarrow> Null | Some v \<Rightarrow> v)"

text \<open>\<open>df[c]\<close>: the values of one column, \<open>KeyError\<close> when there is no such column.\<close>

definition column :: "frame \<Rightarrow> string \<Rightarrow> exn + cell list" where
  "column df c =
     (if c \<in> set (columns df) then Inr (map (\<lambda>r. cell_at (columns df) r c) (rows df))
      else Inl (KeyError c))"

text \<open>The union of the column labels of several frames, in order of first appearance.\<close>

definition union_columns :: "frame list \<Rightarrow> string list" where
  "union_columns objs =
     fold (\<lambda>c acc. if c \<in> set acc then acc else acc @ [c]) (concat (map columns objs)) []"

text \<open>
  \<open>pd.concat(objs, ignore_index=True)\<close>: no objects is a \<open>ValueError\<close>; otherwise the rows
  of all frames in order, over the union of the columns, a missing value being null.
\<close>

definition pd_concat :: "frame list \<Rightarrow> exn + frame" where
  "pd_concat objs =
     (if objs = [] then Inl (ValueError ''No objects to concatenate'')
      else Inr \<lparr>columns = union_columns objs,
                rows = concat (map (\<lambda>df. map (\<lambda>r. map (cell_at (columns df) r) (union_columns objs))
                                          (rows df)) objs)\<rparr>)"

text \<open>
  \<open>pd.DataFrame(data, columns=cols)\<close> for a list of row lists: no rows gives a frame with
  the labels only; otherwise short rows are padded with null and the widest row must have
  as many cells as there are labels.
\<close>

definition pd_DataFrame :: "string list \<Rightarrow> cell list list \<Rightarrow> exn + frame" where
  "pd_DataFrame cols data =
     (if data = [] then Inr \<lparr>columns = cols, rows = []\<rparr>
      else if foldr (\<lambda>r m. max (length r) m) data 0 = length cols
      then Inr \<lparr>columns = cols, rows = map (\<lambda>r. r @ replicate (length cols - length r) Null) data\<rparr>
      else Inl (ValueError ''columns passed do not match the data''))"

text \<open>
  \<open>pd.merge(left, right, on=key, how="left")\<close>: every left row in order, once for each
  right row with an equal key (null keys match each other), or once with nulls when no
  right row matches; the columns are the left ones followed by the right ones without
  the key.
\<close>

definition pd_merge_left :: "frame \<Rightarrow> frame \<Rightarrow> string \<Rightarrow> exn + frame" where
  "pd_merge_left left right on =
     (if on \<in> set (columns left) \<and> on \<in> set (columns right)
      then Inr \<lparr>columns = columns left @ filter (\<lambda>c. c \<noteq> on) (columns right),
                rows = concat (map (\<lambda>l.
                  case filter (\<lambda>r. cell_at (columns right) r on = cell_at (columns left) l on)
                         (rows right) of
                    [] \<Rightarrow> [l @ replicate (length (filter (\<lambda>c. c \<noteq> on) (columns right))) Null]
                  | m # ms \<Rightarrow> map (\<lambda>r. l @ map (cell_at (columns right) r)
                                             (filter (\<lambda>c. c \<noteq> on) (columns right))) (m # ms))
                  (rows left))\<rparr>
      else Inl (KeyError on))"

subsection \<open>Python strings\<close>

text \<open>The whitespace of \<open>str.strip()\<close> and of the regular expression class \<open>\s\<close>.\<close>

definition py_isspace :: "char \<Rightarrow> bool" where
  "py_isspace c = (c \<in> set [CHR 0x09, CHR 0x0A, CHR 0x0B, CHR 0x0C, CHR 0x0D,
                              CHR 0x1C, CHR 0x1D, CHR 0x1E, CHR 0x1F, CHR 0x20,
                              CHR 0x85, CHR 0xA0])"

definition py_strip :: "string \<Rightarrow> string" where
  "py_strip s = rev (dropWhile py_isspace (rev (dropWhile py_isspace s)))"

text \<open>\<open>needle in haystack\<close> on strings.\<close>

fun py_in :: "string \<Rightarrow> string \<Rightarrow> bool" where
  "py_in needle [] = (needle = [])"
| "py_in needle (c # cs) = (prefix needle (c # cs) \<or> py_in needle cs)"

text \<open>\<open>s.split(":")[-1]\<close>: what follows the last colon, or all of \<open>s\<close> without a colon.\<close>

definition split_colon_last :: "string \<Rightarrow> string" where
  "split_colon_last s = rev (takeWhile (\<lambda>c. c \<noteq> CHR '':'') (rev s))"

text \<open>\<open>str(n)\<close> of an integer: the decimal digits, with a minus sign when negative.\<close>

function show_nat :: "nat \<Rightarrow> string" where
  "show_nat n =
     (if n < 10 then [''0123456789'' ! n]
      else show_nat (n div 10) @ [''0123456789'' ! (n mod 10)])"
  by pat_completeness auto
termination
  by (relation "measure (\<lambda>n. n)") auto

declare show_nat.simps [simp del]

definition show_int :: "int \<Rightarrow> string" where
  "show_int i = (if i < 0 then CHR ''-'' # show_nat (nat (- i)) else show_nat (nat i))"

text \<open>The words of a string: its maximal runs of characters that are not whitespace.\<close>

function py_words :: "string \<Rightarrow> string list" where
  "py_words s =
     (if dropWhile py_isspace s = [] then []
      else takeWhile (\<lambda>c. \<not> py_isspace c) (dropWhile py_isspace s)
           # py_words (dropWhile (\<lambda>c. \<not> py_isspace c) (dropWhile py_isspace s)))"
  by pat_completeness auto
termination
proof (relation "measure length")
  show "wf (measure length)" by simp
next
  fix s :: string
  assume ne: "dropWhile py_isspace s \<noteq> []"
  then obtain c cs where d: "dropWhile py_isspace s = c # cs" by (cases "dropWhile py_isspace s") auto
  then have "\<not> py_isspace c" by (metis hd_dropWhile list.sel(1) ne)
  then have "length (dropWhile (\<lambda>c. \<not> py_isspace c) (c # cs)) \<le> length cs"
    by (simp add: length_dropWhile_le)
  moreover have "length (c # cs) \<le> length s" unfolding d [symmetric] by (rule length_dropWhile_le)
  ultimately show "(dropWhile (\<lambda>c. \<not> py_isspace c) (dropWhile py_isspace s), s) \<in> measure length"
    unfolding d by simp
qed

declare py_words.simps [simp del]

text \<open>\<open>s.replace(old, new, 1)\<close>: the first occurrence of a non-empty \<open>old\<close> is replaced.\<close>

fun replace_first :: "string \<Rightarrow> string \<Rightarrow> string \<Rightarrow> string" where
  "replace_first old new [] = []"
| "replace_first old new (c # cs) =
     (if prefix old (c # cs) then new @ drop (length old) (c # cs)
      else c # replace_first old new cs)"

subsection \<open>BeautifulSoup navigation\<close>

text \<open>
  All nodes below a list of siblings, in document order, each with its next sibling
  (\<open>.next_sibling\<close>, \<open>None\<close> for the last child).
\<close>

fun with_siblings :: "node list \<Rightarrow> (node \<times> node option) list" where
  "with_siblings [] = []"
| "with_siblings (Tag n a ks # cs) =
     (Tag n a ks, case cs of [] \<Rightarrow> None | d # ds \<Rightarrow> Some d) # with_siblings ks @ with_siblings cs"
| "with_siblings (NavigableString s # cs) =
     (NavigableString s, case cs of [] \<Rightarrow> None | d # ds \<Rightarrow> Some d) # with_siblings cs"
| "with_siblings (Comment s # cs) =
     (Comment s, case cs of [] \<Rightarrow> None | d # ds \<Rightarrow> Some d) # with_siblings cs"

definition descendants_list :: "node list \<Rightarrow> node list" where
  "descendants_list cs = map fst (with_siblings cs)"

fun descendants :: "node \<Rightarrow> node list" where
  "descendants (Tag n a ks) = descendants_list ks"
| "descendants (NavigableString s) = []"
| "descendants (Comment s) = []"

fun is_tag :: "node \<Rightarrow> bool" where
  "is_tag (Tag n a ks) = True"
| "is_tag (NavigableString s) = False"
| "is_tag (Comment s) = False"

fun named :: "string \<Rightarrow> node \<Rightarrow> bool" where
  "named name (Tag n a ks) = (n = name)"
| "named name (NavigableString s) = False"
| "named name (Comment s) = False"

text \<open>\<open>tag.find_all(name)\<close> and \<open>tag.find(name)\<close>: the descendant tags of that name, the first.\<close>

definition find_all :: "string \<Rightarrow> node \<Rightarrow> node list" where
  "find_all name t = filter (named name) (descendants t)"

definition soup_find :: "string \<Rightarrow> node list \<Rightarrow> node option" where
  "soup_find name soup = List.find (named name) (descendants_list soup)"

text \<open>
  Attributes.  \<open>tag.get(k)\<close> is the value or \<open>None\<close>, \<open>tag[k]\<close> raises \<open>KeyError\<close> without the
  attribute.  A search by \<open>attrs={k: v}\<close> wants the value to be \<open>v\<close>; a search by
  \<open>class_=c\<close> wants \<open>c\<close> among the words of the \<open>class\<close> attribute.
\<close>

fun tag_get :: "node \<Rightarrow> string \<Rightarrow> string option" where
  "tag_get (Tag n a ks) k = map_of a k"
| "tag_get (NavigableString s) k = None"
| "tag_get (Comment s) k = None"

definition has_attr :: "string \<Rightarrow> string \<Rightarrow> node \<Rightarrow> bool" where
  "has_attr k v t = (tag_get t k = Some v)"

definition has_class :: "string \<Rightarrow> node \<Rightarrow> bool" where
  "has_class c t = (case tag_get t ''class'' of None \<Rightarrow> False | Some v \<Rightarrow> c \<in> set (py_words v))"

definition get_attr :: "node \<Rightarrow> string \<Rightarrow> exn + string" where
  "get_attr t k = (case tag_get t k of None \<Rightarrow> Inl (KeyError k) | Some v \<Rightarrow> Inr v)"

text \<open>
  The elements of a document-order list, each with the elements after it, which is what
  \<open>find_next\<close> searches.
\<close>

fun next_elements :: "node list \<Rightarrow> (node \<times> node list) list" where
  "next_elements [] = []"
| "next_elements (n # ns) = (n, ns) # next_elements ns"

text \<open>
  \<open>tag.string\<close>: the single child when it is a string, the \<open>.string\<close> of the single child
  when it is a tag, \<open>None\<close> with no child or several.
\<close>

fun dot_string :: "node \<Rightarrow> string option" where
  "dot_string (Tag n a [c]) = dot_string c"
| "dot_string (Tag n a cs) = None"
| "dot_string (NavigableString s) = Some s"
| "dot_string (Comment s) = Some s"

text \<open>The text nodes below a node that \<open>get_text\<close> collects: comments are left out.\<close>

fun all_strings :: "node \<Rightarrow> string list" where
  "all_strings (Tag n a ks) = concat (map all_strings ks)"
| "all_strings (NavigableString s) = [s]"
| "all_strings (Comment s) = []"

text \<open>\<open>tag.text\<close> and \<open>tag.get_text(strip=True)\<close> (stripped pieces, empty ones dropped).\<close>

definition get_text :: "node \<Rightarrow> string" where
  "get_text t = concat (all_strings t)"

definition get_text_strip :: "node \<Rightarrow> string" where
  "get_text_strip t = concat (filter (\<lambda>s. s \<noteq> []) (map py_strip (all_strings t)))"

subsection \<open>The environment of a run\<close>

text \<open>
  Everything outside the repository that a run depends on.  \<open>rdkit_molblock\<close> is RDKit:
  \<open>None\<close> when \<open>MolFromSmiles\<close> rejects the SMILES, otherwise the MolBlock.
  \<open>requests_post job attempt url data\<close> and \<open>requests_get job attempt url\<close> are what the
  server answers to the given request of a job, \<open>attempt\<close> counting the requests the job
  has already sent; the job index lets two jobs with the same identifier be treated
  differently by the server.  \<open>html_parser\<close> is \<open>BeautifulSoup(html, "html.parser")\<close>, which
  returns the parsed document or raises; \<open>quote\<close> is \<open>urllib.parse.quote\<close>.
  \<open>recursion_limit\<close> is how many nested calls of \<open>fetch_html\<close> the interpreter allows
  before it raises \<open>RecursionError\<close>.  \<open>style_normalize\<close> is \<open>Style.normalize\<close> of rich, and
  \<open>literal_eval_error\<close> is the check that rich makes of the parameters of a closed
  \<open>@\<close> tag: \<open>None\<close> when they parse, otherwise the message of the \<open>MarkupError\<close>.
  \<open>parse_summary\<close> and \<open>get_csv_url\<close> are \<open>_parse_summary\<close> and \<open>_get_csv_url\<close> of
  admetlab.py and \<open>read_csv\<close> is \<open>pd.read_csv\<close>; no claim depends on them.
\<close>

record env =
  rdkit_molblock :: "string \<Rightarrow> string option"
  requests_post :: "nat \<Rightarrow> nat \<Rightarrow> string \<Rightarrow> (string \<times> string) list \<Rightarrow> http_result"
  requests_get :: "nat \<Rightarrow> nat \<Rightarrow> string \<Rightarrow> http_result"
  html_parser :: "string \<Rightarrow> exn + node list"
  quote :: "string \<Rightarrow> string"
  recursion_limit :: nat
  style_normalize :: "string \<Rightarrow> string"
  literal_eval_error :: "string \<Rightarrow> string option"
  parse_summary :: "node list \<Rightarrow> exn + (string \<times> int) list"
  get_csv_url :: "node list \<Rightarrow> string option"
  read_csv :: "string \<Rightarrow> exn + frame"

text \<open>The argument of \<open>run\<close>: one SMILES string or a list of them.\<close>

datatype smiles_input = Single string | Many "string list"

text \<open>Sequencing of steps that may raise.\<close>

definition and_then :: "exn + 'a \<Rightarrow> ('a \<Rightarrow> exn + 'b) \<Rightarrow> exn + 'b" where
  "and_then r f = (case r of Inl err \<Rightarrow> Inl err | Inr v \<Rightarrow> f v)"

text \<open>
  \<open>time.sleep(secs)\<close>: a negative length is a \<open>ValueError\<close>, a length beyond what fits the
  clock in nanoseconds is an \<open>OverflowError\<close>.
\<close>

definition time_sleep :: "int \<Rightarrow> exn + event" where
  "time_sleep secs =
     (if secs < 0 then Inl (ValueError ''sleep length must be non-negative'')
      else if 9223372036 < secs
      then Inl (OverflowError ''timestamp too large to convert to C _PyTime_t'')
      else Inr (Sleep secs))"

text \<open>
  \<open>ThreadPoolExecutor(max_workers=n)\<close> raises \<open>ValueError\<close> unless \<open>n\<close> is positive.
\<close>

definition executor_error :: "int \<Rightarrow> exn option" where
  "executor_error n =
     (if n \<le> 0 then Some (ValueError ''max_workers must be greater than 0'') else None)"

subsection \<open>Log lines: the console markup of rich\<close>

text \<open>
  \<open>console.log\<close> and the logging handler \<open>RichHandler(markup=True)\<close>, which the package
  installs on the root logger when it is imported, render every message as console
  markup before printing it, and rendering raises \<open>MarkupError\<close> out of the logging call
  when the message closes a tag that is not open.  A message is built from a literal and
  from values of the caller; in the literals below, a symbol outside ASCII is written as
  one asterisk, so that positions agree with the source.  Log lines that carry a count
  only, or no value at all, contain no closing tag besides the literal ones and always
  render; they are left out of the functions below, and so are the \<open>log.debug\<close> lines,
  which the level of the root logger suppresses.

  \<open>match_tag\<close> is the regular expression \<open>(\\*)\[([a-z#/@][^[]*?)]\<close> at the start of a
  string: the backslashes before the bracket, the text of the tag up to the first closing
  bracket (with no opening bracket in between), and what follows the tag.
\<close>

definition is_backslash :: "char \<Rightarrow> bool" where
  "is_backslash c = (c = CHR 0x5C)"

definition tag_start_char :: "char \<Rightarrow> bool" where
  "tag_start_char c = (c \<in> set ''abcdefghijklmnopqrstuvwxyz#/@'')"

definition match_tag :: "string \<Rightarrow> (nat \<times> string \<times> string) option" where
  "match_tag s =
     (case dropWhile is_backslash s of
        c # t # ts \<Rightarrow>
          if c = CHR ''['' \<and> tag_start_char t
             \<and> dropWhile (\<lambda>x. x \<noteq> CHR '']'') (t # ts) \<noteq> []
             \<and> CHR ''['' \<notin> set (takeWhile (\<lambda>x. x \<noteq> CHR '']'') (t # ts))
          then Some (length (takeWhile is_backslash s),
                     takeWhile (\<lambda>x. x \<noteq> CHR '']'') (t # ts),
                     tl (dropWhile (\<lambda>x. x \<noteq> CHR '']'') (t # ts)))
          else None
      | _ \<Rightarrow> None)"

text \<open>
  \<open>_parse\<close> of rich/markup.py: the tags of a message from left to right, each with its
  position and its text.  An odd number of backslashes escapes the tag, which is then
  plain text.
\<close>

function parse_tags :: "nat \<Rightarrow> string \<Rightarrow> (nat \<times> string) list" where
  "parse_tags position [] = []"
| "parse_tags position (c # cs) =
     (case match_tag (c # cs) of
        None \<Rightarrow> parse_tags (Suc position) cs
      | Some (escapes, tag_text, rest) \<Rightarrow>
          (if even escapes then [(position + escapes, tag_text)] else [])
          @ parse_tags (position + escapes + length tag_text + 2) rest)"
  by pat_completeness auto
termination
proof (relation "measure (\<lambda>(position, s). length s)")
  show "wf (measure (\<lambda>(position, s). length s))" by simp
next
  fix position :: nat and c :: char and cs :: string
  show "((Suc position, cs), (position, c # cs)) \<in> measure (\<lambda>(position, s). length s)" by simp
next
  fix position :: nat and c :: char and cs :: string and x2 :: "nat \<times> string \<times> string"
    and escapes :: nat and y :: "string \<times> string" and tag_text rest :: string
  assume m: "match_tag (c # cs) = Some x2" and x2: "(escapes, y) = x2" and y: "(tag_text, rest) = y"
  obtain a t ts where d: "dropWhile is_backslash (c # cs) = a # t # ts"
    and r: "rest = tl (dropWhile (\<lambda>x. x \<noteq> CHR '']'') (t # ts))"
    using m x2 y by (auto simp: match_tag_def split: list.splits if_splits)
  have "length rest \<le> length (t # ts)"
    unfolding r by (metis diff_le_self le_trans length_dropWhile_le length_tl)
  moreover have "length (a # t # ts) \<le> length (c # cs)"
    unfolding d [symmetric] by (rule length_dropWhile_le)
  ultimately show "((position + escapes + length tag_text + 2, rest), (position, c # cs))
                     \<in> measure (\<lambda>(position, s). length s)"
    by simp
qed

declare parse_tags.simps [simp del]

text \<open>
  The name of a tag is its text before the first equals sign, its parameters are what
  follows that sign.
\<close>

definition tag_name :: "string \<Rightarrow> string" where
  "tag_name tag_text = takeWhile (\<lambda>x. x \<noteq> CHR ''='') tag_text"

definition tag_parameters :: "string \<Rightarrow> string option" where
  "tag_parameters tag_text =
     (if CHR ''='' \<in> set tag_text
      then Some (tl (dropWhile (\<lambda>x. x \<noteq> CHR ''='') tag_text)) else None)"

text \<open>
  The stack of open tags, the innermost first.  \<open>pop_style\<close> takes out the innermost open
  tag of the given name.
\<close>

fun pop_style ::
  "string \<Rightarrow> (string \<times> string option) list \<Rightarrow>
     ((string \<times> string option) \<times> (string \<times> string option) list) option" where
  "pop_style style_name [] = None"
| "pop_style style_name (t # stack) =
     (if fst t = style_name then Some (t, stack)
      else (case pop_style style_name stack of
              None \<Rightarrow> None
            | Some (found, rest) \<Rightarrow> Some (found, t # rest)))"

text \<open>Closing an \<open>@\<close> tag evaluates its parameters, when it has any.\<close>

definition close_error :: "env \<Rightarrow> string \<times> string option \<Rightarrow> exn option" where
  "close_error e open_tag =
     (case open_tag of
        (name, parameters) \<Rightarrow>
          if prefix ''@'' name
          then (case parameters of
                  None \<Rightarrow> None
                | Some p \<Rightarrow>
                    if p = [] then None
                    else (case literal_eval_error e p of
                            None \<Rightarrow> None
                          | Some m \<Rightarrow> Some (MarkupError m)))
          else None)"

text \<open>
  \<open>render\<close> of rich/markup.py, as far as it can raise: an opening tag is pushed, a closing
  tag \<open>[/name]\<close> needs an open tag of that name and \<open>[/]\<close> needs some open tag.
\<close>

fun render_tags ::
  "env \<Rightarrow> (string \<times> string option) list \<Rightarrow> (nat \<times> string) list \<Rightarrow> exn option" where
  "render_tags e stack [] = None"
| "render_tags e stack ((position, tag_text) # tags) =
     (if prefix ''/'' (tag_name tag_text)
      then (if py_strip (tl (tag_name tag_text)) \<noteq> []
            then (case pop_style (style_normalize e (py_strip (tl (tag_name tag_text)))) stack of
                    None \<Rightarrow>
                      Some (MarkupError
                        (''closing tag '' @ [CHR 0x27] @ ''['' @ tag_text @ '']'' @ [CHR 0x27]
                         @ '' at position '' @ show_nat position
                         @ '' doesn'' @ [CHR 0x27] @ ''t match any open tag''))
                  | Some (open_tag, rest) \<Rightarrow>
                      (case close_error e open_tag of
                         Some err \<Rightarrow> Some err
                       | None \<Rightarrow> render_tags e rest tags))
            else (case stack of
                    [] \<Rightarrow>
                      Some (MarkupError
                        (''closing tag '' @ [CHR 0x27] @ ''[/]'' @ [CHR 0x27]
                         @ '' at position '' @ show_nat position @ '' has nothing to close''))
                  | open_tag # rest \<Rightarrow>
                      (case close_error e open_tag of
                         Some err \<Rightarrow> Some err
                       | None \<Rightarrow> render_tags e rest tags)))
      else render_tags e
             ((style_normalize e (tag_name tag_text), tag_parameters tag_text) # stack) tags)"

text \<open>What a logging call raises for a message, if anything.\<close>

definition markup_error :: "env \<Rightarrow> string \<Rightarrow> exn option" where
  "markup_error e message =
     (if CHR ''['' \<in> set message then render_tags e [] (parse_tags 0 message) else None)"

text \<open>The log lines of protox.py and molsoft.py that carry an identifier.\<close>

definition rate_limit_warning :: "string \<Rightarrow> string" where
  "rate_limit_warning smiles =
     ''[bold yellow]* Hit rate limit while requesting: '' @ smiles @ ''[/]''"

definition waiting_info :: "int \<Rightarrow> string" where
  "waiting_info minutes =
     ''[blue]* Waiting '' @ show_int minutes @ '' minutes before continuing...[/]''"

definition success_line :: "string \<Rightarrow> string" where
  "success_line smiles = ''[green]* Success:[/] '' @ smiles"

definition failed_line :: "string \<Rightarrow> exn \<Rightarrow> string" where
  "failed_line smiles err = ''[red]* Failed:[/] '' @ smiles @ '' | '' @ exn_message err"

text \<open>
  The loop over \<open>as_completed\<close> in a \<open>run\<close>: \<open>future.result()\<close> raises what the job raised,
  which ends the loop; otherwise a result that is not empty is appended.
\<close>

fun collect_results :: "(exn + frame) list \<Rightarrow> exn + frame list" where
  "collect_results [] = Inr []"
| "collect_results (Inl err # futures) = Inl err"
| "collect_results (Inr result # futures) =
     (case collect_results futures of
        Inl err \<Rightarrow> Inl err
      | Inr results \<Rightarrow> Inr (if df_empty result then results else result # results))"

section \<open>protox.py\<close>

record ProtoxScraper =
  px_max_workers :: int
  auto_resume :: bool
  wait_minutes :: int

definition ProtoxScraper_init :: "int \<Rightarrow> bool \<Rightarrow> int \<Rightarrow> ProtoxScraper" where
  "ProtoxScraper_init max_workers_arg auto_resume_arg wait_minutes_arg =
     \<lparr>px_max_workers = max_workers_arg, auto_resume = auto_resume_arg,
      wait_minutes = wait_minutes_arg\<rparr>"

definition PROTOX_URL :: string where
  "PROTOX_URL = ''https://tox.charite.de/protox3/index.php?site=compound_search_similarity''"

definition rate_limit_marker :: string where
  "rate_limit_marker = ''You reached the limit of allowed queries''"

text \<open>\<open>ProtoxScraper.smiles_to_molblock\<close> (protox.py, lines 84 to 100).\<close>

definition smiles_to_molblock :: "env \<Rightarrow> string \<Rightarrow> exn + string" where
  "smiles_to_molblock e smiles =
     (case rdkit_molblock e smiles of
        None \<Rightarrow> Inl (ValueError (''Invalid SMILES: '' @ smiles))
      | Some molblock \<Rightarrow> Inr molblock)"

text \<open>The form data posted by \<open>fetch_html\<close> (protox.py, lines 117 to 122).\<close>

definition protox_payload :: "string \<Rightarrow> string \<Rightarrow> (string \<times> string) list" where
  "protox_payload molblock smiles =
     [(''smilesString'', molblock), (''defaultName'', ''Tamoxifen''), (''smiles'', smiles),
      (''pubchem_name'', [])]"

text \<open>
  \<open>ProtoxScraper.fetch_html\<close> (protox.py, lines 102 to 139), with the events of the call.
  The first argument is the number of nested calls the interpreter still allows; the
  retry after a rate limit is the recursive call of the source.
\<close>

fun fetch_html :: "nat \<Rightarrow> env \<Rightarrow> ProtoxScraper \<Rightarrow> nat \<Rightarrow> nat \<Rightarrow> string \<Rightarrow> (exn + string) \<times> event list" where
  "fetch_html 0 e self job attempt smiles =
     (Inl (RecursionError ''maximum recursion depth exceeded''), [])"
| "fetch_html (Suc depth) e self job attempt smiles =
     (case smiles_to_molblock e smiles of
        Inl err \<Rightarrow> (Inl err, [])
      | Inr molblock \<Rightarrow>
          (case requests_post e job attempt PROTOX_URL (protox_payload molblock smiles) of
             Raised err \<Rightarrow> (Inl err, [Request PROTOX_URL])
           | Response status_code reason text \<Rightarrow>
               if status_code \<noteq> 200
               then (Inl (ConnectionError (''Failed to retrieve data for '' @ smiles
                                           @ '', status: '' @ show_int status_code)),
                     [Request PROTOX_URL])
               else if py_in rate_limit_marker text
               then (case markup_error e (rate_limit_warning smiles) of
                       Some err \<Rightarrow> (Inl err, [Request PROTOX_URL])
                     | None \<Rightarrow>
                         if auto_resume self
                         then (case markup_error e (waiting_info (wait_minutes self)) of
                                 Some err \<Rightarrow> (Inl err, [Request PROTOX_URL])
                               | None \<Rightarrow>
                                   (case time_sleep (wait_minutes self * 60) of
                                      Inl err \<Rightarrow> (Inl err, [Request PROTOX_URL])
                                    | Inr slept \<Rightarrow>
                                        (case fetch_html depth e self job (Suc attempt) smiles of
                                           (r, evs) \<Rightarrow> (r, Request PROTOX_URL # slept # evs))))
                         else (Inl (RuntimeError ''Rate limit detected. Try again later.''),
                               [Request PROTOX_URL]))
               else (Inr text, [Request PROTOX_URL])))"

text \<open>\<open>extract_text\<close>, the local function of \<open>ProtoxScraper.parse_html\<close> (lines 154 to 156).\<close>

definition extract_text :: "node list \<Rightarrow> string \<Rightarrow> cell" where
  "extract_text soup label =
     (case List.find
             (\<lambda>t. named ''h1'' t \<and>
                  (case dot_string t of None \<Rightarrow> False | Some s \<Rightarrow> s \<noteq> [] \<and> py_in label s))
             (descendants_list soup) of
        None \<Rightarrow> Null
      | Some h1 \<Rightarrow> Str (py_strip (split_colon_last (get_text_strip h1))))"

definition protox_columns :: "string list" where
  "protox_columns = [''SMILES'', ''Predicted LD50'', ''Toxicity Class'',
                     ''Average Similarity'', ''Prediction Accuracy'']"

text \<open>
  \<open>ProtoxScraper.parse_html\<close> (protox.py, lines 141 to 166): the parser call, which may
  raise, and the extraction from the parsed document.
\<close>

definition protox_parse_soup :: "node list \<Rightarrow> string \<Rightarrow> frame" where
  "protox_parse_soup soup smiles =
     \<lparr>columns = protox_columns,
      rows = [[Str smiles,
               extract_text soup ''Predicted LD50'',
               extract_text soup ''Predicted Toxicity Class'',
               extract_text soup ''Average similarity'',
               extract_text soup ''Prediction accuracy'']]\<rparr>"

definition protox_parse_html :: "env \<Rightarrow> string \<Rightarrow> string \<Rightarrow> exn + frame" where
  "protox_parse_html e html smiles =
     (case html_parser e html of
        Inl err \<Rightarrow> Inl err
      | Inr soup \<Rightarrow> Inr (protox_parse_soup soup smiles))"

text \<open>
  The \<open>try\<close> body of \<open>ProtoxScraper.process_single\<close> (protox.py, lines 179 to 182): fetch,
  parse, log the success line, return the frame.
\<close>

definition protox_try :: "env \<Rightarrow> ProtoxScraper \<Rightarrow> nat \<Rightarrow> string \<Rightarrow> (exn + frame) \<times> event list" where
  "protox_try e self job smiles =
     (case fetch_html (recursion_limit e) e self job 0 smiles of
        (Inl err, evs) \<Rightarrow> (Inl err, evs)
      | (Inr html, evs) \<Rightarrow>
          (case protox_parse_html e html smiles of
             Inl err \<Rightarrow> (Inl err, evs)
           | Inr df \<Rightarrow>
               (case markup_error e (success_line smiles) of
                  Some err \<Rightarrow> (Inl err, evs)
                | None \<Rightarrow> (Inr df, evs))))"

text \<open>
  \<open>ProtoxScraper.process_single\<close> (protox.py, lines 168 to 185): the \<open>try\<close> body, and the
  \<open>except Exception\<close> handler, which logs the failure line and returns \<open>pd.DataFrame()\<close>.
  What the logging call of the handler raises leaves \<open>process_single\<close>.
\<close>

definition protox_process_single ::
  "env \<Rightarrow> ProtoxScraper \<Rightarrow> nat \<Rightarrow> string \<Rightarrow> (exn + frame) \<times> event list" where
  "protox_process_single e self job smiles =
     (case protox_try e self job smiles of
        (Inr df, evs) \<Rightarrow> (Inr df, evs)
      | (Inl err, evs) \<Rightarrow>
          (case markup_error e (failed_line smiles err) of
             Some err' \<Rightarrow> (Inl err', evs)
           | None \<Rightarrow> (Inr empty_frame, evs)))"

text \<open>
  \<open>ProtoxScraper.run\<close> (protox.py, lines 187 to 234).  The futures are the jobs in
  submission order; \<open>sched\<close> is the order in which \<open>as_completed\<close> yields them.  The result
  is what \<open>run\<close> returns or raises, with the events of all jobs: the executor waits for
  every submitted job before \<open>run\<close> is left.
\<close>

definition protox_futures ::
  "env \<Rightarrow> ProtoxScraper \<Rightarrow> string list \<Rightarrow> ((exn + frame) \<times> event list) list" where
  "protox_futures e self smiles_list =
     map (\<lambda>(job, smiles). protox_process_single e self job smiles) (enumerate 0 smiles_list)"

definition protox_run ::
  "env \<Rightarrow> ProtoxScraper \<Rightarrow>
     (((exn + frame) \<times> event list) list \<Rightarrow> ((exn + frame) \<times> event list) list) \<Rightarrow>
     smiles_input \<Rightarrow> (exn + frame) \<times> event list" where
  "protox_run e self sched inp =
     (let smiles_list = (case inp of Single s \<Rightarrow> [s] | Many l \<Rightarrow> l) in
      case executor_error (px_max_workers self) of
        Some err \<Rightarrow> (Inl err, [])
      | None \<Rightarrow>
          (let completed = sched (protox_futures e self smiles_list) in
           (and_then (collect_results (map fst completed)) pd_concat,
            concat (map snd completed))))"

section \<open>molsoft.py\<close>

record MolsoftScraper =
  ms_max_workers :: int

definition MOLSOFT_URL :: string where
  "MOLSOFT_URL = ''https://www.molsoft.com/mprop/''"

text \<open>\<open>MolsoftScraper.smiles_to_molblock\<close> (molsoft.py, lines 78 to 96).\<close>

definition molsoft_smiles_to_molblock :: "env \<Rightarrow> string \<Rightarrow> exn + string" where
  "molsoft_smiles_to_molblock e smiles =
     (case rdkit_molblock e smiles of
        None \<Rightarrow> Inl (ValueError (''Invalid SMILES: '' @ smiles))
      | Some mol_block \<Rightarrow> Inr (replace_first ''RDKit'' ''MOLSOFT'' mol_block))"

text \<open>The form data posted by \<open>fetch_html\<close> (molsoft.py, lines 112 to 118).\<close>

definition molsoft_payload :: "string \<Rightarrow> (string \<times> string) list" where
  "molsoft_payload mol_block =
     [(''p'', []), (''sm'', []), (''jme_mol'', mol_block), (''act'', ''Search''),
      (''Calc'', ''Calculate Properties'')]"

text \<open>\<open>MolsoftScraper.fetch_html\<close> (molsoft.py, lines 98 to 127).\<close>

definition molsoft_fetch_html :: "env \<Rightarrow> nat \<Rightarrow> string \<Rightarrow> (exn + string) \<times> event list" where
  "molsoft_fetch_html e job smiles =
     (case molsoft_smiles_to_molblock e smiles of
        Inl err \<Rightarrow> (Inl err, [])
      | Inr mol_block \<Rightarrow>
          (case requests_post e job 0 MOLSOFT_URL (molsoft_payload mol_block) of
             Raised err \<Rightarrow> (Inl err, [Request MOLSOFT_URL])
           | Response status_code reason text \<Rightarrow>
               if status_code \<noteq> 200
               then (Inl (ConnectionError (''Failed to retrieve data for '' @ smiles
                                           @ '', status: '' @ show_int status_code)),
                     [Request MOLSOFT_URL])
               else (Inr text, [Request MOLSOFT_URL])))"

text \<open>
  \<open>get_value\<close>, the local function of \<open>MolsoftScraper.parse_html\<close> (lines 143 to 147), on
  the \<open>b\<close> tags with their next siblings.  The first tag whose text contains the key is
  taken.  Without a next sibling, or with an empty string as the sibling, the value is
  \<open>None\<close>; a string sibling is stripped.  When the sibling is a tag, \<open>.strip\<close> is
  BeautifulSoup's attribute lookup \<open>find("strip")\<close>: without such a descendant the call
  of \<open>None\<close> is a \<open>TypeError\<close>, with one the call is its \<open>find_all()\<close>.
\<close>

definition get_value :: "(node \<times> node option) list \<Rightarrow> string \<Rightarrow> exn + cell" where
  "get_value b_tags key =
     (case List.find (\<lambda>(b, sib). py_in key (get_text b)) b_tags of
        None \<Rightarrow> Inr Null
      | Some (tag, None) \<Rightarrow> Inr Null
      | Some (tag, Some (NavigableString s)) \<Rightarrow> if s = [] then Inr Null else Inr (Str (py_strip s))
      | Some (tag, Some (Comment s)) \<Rightarrow> if s = [] then Inr Null else Inr (Str (py_strip s))
      | Some (tag, Some (Tag n a ks)) \<Rightarrow>
          (case List.find (named ''strip'') (descendants_list ks) of
             None \<Rightarrow> Inl (TypeError ''NoneType object is not callable'')
           | Some t \<Rightarrow> Inr (ResultSet (filter is_tag (descendants t)))))"

text \<open>Python truth of a value returned by \<open>get_value\<close>.\<close>

fun truthy :: "cell \<Rightarrow> bool" where
  "truthy Null = False"
| "truthy (Str s) = (s \<noteq> [])"
| "truthy (ResultSet ns) = (ns \<noteq> [])"
| "truthy (Dicts ds) = (ds \<noteq> [])"

text \<open>The character class \<open>[-\d.]\<close> of both regular expressions.\<close>

definition num_char :: "char \<Rightarrow> bool" where
  "num_char c = (c = CHR ''-'' \<or> c = CHR ''.'' \<or> c \<in> set ''0123456789'')"

text \<open>
  \<open>([-\d.]+)\s+\(in Log\<close> matched at the start of a string: the group is the longest run
  of class characters, since neither a space nor the parenthesis is in the class.
\<close>

definition match_logs_here :: "string \<Rightarrow> string option" where
  "match_logs_here s =
     (if takeWhile num_char s \<noteq> []
         \<and> takeWhile py_isspace (dropWhile num_char s) \<noteq> []
         \<and> prefix ''(in Log'' (dropWhile py_isspace (dropWhile num_char s))
      then Some (takeWhile num_char s) else None)"

text \<open>\<open>re.search\<close> of that pattern: the leftmost position where it matches.\<close>

fun search_logs :: "string \<Rightarrow> string option" where
  "search_logs [] = match_logs_here []"
| "search_logs (c # cs) =
     (case match_logs_here (c # cs) of Some g \<Rightarrow> Some g | None \<Rightarrow> search_logs cs)"

text \<open>\<open>re.search(r"^\s*([-\d.]+)", s)\<close>.\<close>

definition search_bbb :: "string \<Rightarrow> string option" where
  "search_bbb s =
     (if takeWhile num_char (dropWhile py_isspace s) \<noteq> []
      then Some (takeWhile num_char (dropWhile py_isspace s)) else None)"

text \<open>
  The two guarded matches of \<open>parse_html\<close> (lines 149 to 159): a falsy text gives \<open>None\<close>,
  a string is searched, anything else makes \<open>re.search\<close> raise \<open>TypeError\<close>.
\<close>

definition guarded_search :: "(string \<Rightarrow> string option) \<Rightarrow> cell \<Rightarrow> exn + cell" where
  "guarded_search re_search v =
     (if truthy v
      then (case v of
              Str s \<Rightarrow> Inr (case re_search s of None \<Rightarrow> Null | Some g \<Rightarrow> Str g)
            | _ \<Rightarrow> Inl (TypeError ''expected string or bytes-like object''))
      else Inr Null)"

definition molsoft_columns :: "string list" where
  "molsoft_columns = [''SMILES'', ''Molecular formula'', ''Molecular weight'', ''HBA'', ''HBD'',
                      ''MolLogP'', ''MolLogS'', ''MolPSA'', ''MolVol'', ''pKa'', ''BBB Score'',
                      ''Number of stereo centers'']"

text \<open>
  \<open>MolsoftScraper.parse_html\<close> on the parsed document (molsoft.py, lines 141 to 176), the
  lookups in the order in which the source evaluates them.
\<close>

definition find_all_b :: "node list \<Rightarrow> (node \<times> node option) list" where
  "find_all_b soup = filter (\<lambda>(b, sib). named ''b'' b) (with_siblings soup)"

definition molsoft_parse_soup :: "node list \<Rightarrow> string \<Rightarrow> exn + frame" where
  "molsoft_parse_soup soup smiles =
     (let b_tags = find_all_b soup in
      and_then (get_value b_tags ''MolLogS :'') (\<lambda>logs_text.
      and_then (guarded_search search_logs logs_text) (\<lambda>logs_val.
      and_then (get_value b_tags ''BBB Score :'') (\<lambda>bbb_score_text.
      and_then (guarded_search search_bbb bbb_score_text) (\<lambda>bbb_score.
      and_then (get_value b_tags ''Molecular formula:'') (\<lambda>formula.
      and_then (get_value b_tags ''Molecular weight:'') (\<lambda>weight.
      and_then (get_value b_tags ''Number of HBA:'') (\<lambda>hba.
      and_then (get_value b_tags ''Number of HBD:'') (\<lambda>hbd.
      and_then (get_value b_tags ''MolLogP :'') (\<lambda>logp.
      and_then (get_value b_tags ''MolPSA :'') (\<lambda>psa.
      and_then (get_value b_tags ''MolVol :'') (\<lambda>vol.
      and_then (get_value b_tags ''pKa of most Basic/Acidic group :'') (\<lambda>pka.
      and_then (get_value b_tags ''Number of stereo centers:'') (\<lambda>stereo.
        Inr \<lparr>columns = molsoft_columns,
             rows = [[Str smiles, formula, weight, hba, hbd, logp, logs_val, psa, vol, pka,
                      bbb_score, stereo]]\<rparr>))))))))))))))"

text \<open>\<open>MolsoftScraper.parse_html\<close> (molsoft.py, lines 129 to 176), with the parser call.\<close>

definition molsoft_parse_html :: "env \<Rightarrow> string \<Rightarrow> string \<Rightarrow> exn + frame" where
  "molsoft_parse_html e html smiles =
     (case html_parser e html of
        Inl err \<Rightarrow> Inl err
      | Inr soup \<Rightarrow> molsoft_parse_soup soup smiles)"

text \<open>The \<open>try\<close> body of \<open>MolsoftScraper.process_single\<close> (molsoft.py, lines 191 to 194).\<close>

definition molsoft_try :: "env \<Rightarrow> nat \<Rightarrow> string \<Rightarrow> (exn + frame) \<times> event list" where
  "molsoft_try e job smiles =
     (case molsoft_fetch_html e job smiles of
        (Inl err, evs) \<Rightarrow> (Inl err, evs)
      | (Inr html, evs) \<Rightarrow>
          (case molsoft_parse_html e html smiles of
             Inl err \<Rightarrow> (Inl err, evs)
           | Inr df \<Rightarrow>
               (case markup_error e (success_line smiles) of
                  Some err \<Rightarrow> (Inl err, evs)
                | None \<Rightarrow> (Inr df, evs))))"

text \<open>\<open>MolsoftScraper.process_single\<close> (molsoft.py, lines 180 to 197).\<close>

definition molsoft_process_single ::
  "env \<Rightarrow> MolsoftScraper \<Rightarrow> nat \<Rightarrow> string \<Rightarrow> (exn + frame) \<times> event list" where
  "molsoft_process_single e self job smiles =
     (case molsoft_try e job smiles of
        (Inr df, evs) \<Rightarrow> (Inr df, evs)
      | (Inl err, evs) \<Rightarrow>
          (case markup_error e (failed_line smiles err) of
             Some err' \<Rightarrow> (Inl err', evs)
           | None \<Rightarrow> (Inr empty_frame, evs)))"

text \<open>\<open>MolsoftScraper.run\<close> (molsoft.py, lines 200 to 247).\<close>

definition molsoft_futures ::
  "env \<Rightarrow> MolsoftScraper \<Rightarrow> string list \<Rightarrow> ((exn + frame) \<times> event list) list" where
  "molsoft_futures e self smiles_list =
     map (\<lambda>(job, smiles). molsoft_process_single e self job smiles) (enumerate 0 smiles_list)"

definition molsoft_run ::
  "env \<Rightarrow> MolsoftScraper \<Rightarrow>
     (((exn + frame) \<times> event list) list \<Rightarrow> ((exn + frame) \<times> event list) list) \<Rightarrow>
     smiles_input \<Rightarrow> (exn + frame) \<times> event list" where
  "molsoft_run e self sched inp =
     (let smiles_list = (case inp of Single s \<Rightarrow> [s] | Many l \<Rightarrow> l) in
      case executor_error (ms_max_workers self) of
        Some err \<Rightarrow> (Inl err, [])
      | None \<Rightarrow>
          (let completed = sched (molsoft_futures e self smiles_list) in
           (and_then (collect_results (map fst completed)) pd_concat,
            concat (map snd completed))))"

section \<open>admetlab.py: the run\<close>

definition ADMET_BASE_URL :: string where
  "ADMET_BASE_URL = ''https://admetlab3.scbdd.com''"

definition INDEX_URL :: string where
  "INDEX_URL = ADMET_BASE_URL @ ''/server/screening''"

definition POST_URL :: string where
  "POST_URL = ADMET_BASE_URL @ ''/server/screeningCal''"

text \<open>\<open>sep.join(xs)\<close>.\<close>

fun py_join :: "string \<Rightarrow> string list \<Rightarrow> string" where
  "py_join sep [] = []"
| "py_join sep [x] = x"
| "py_join sep (x # y # ys) = x @ sep @ py_join sep (y # ys)"

text \<open>
  \<open>AdmetLabScraper._get_csrf_token\<close> (admetlab.py, lines 103 to 121): the first \<open>input\<close>
  tag whose \<open>name\<close> attribute is \<open>csrfmiddlewaretoken\<close>, and its \<open>value\<close> attribute.
\<close>

definition get_csrf_token :: "env \<Rightarrow> nat \<Rightarrow> (exn + string) \<times> event list" where
  "get_csrf_token e job =
     (case requests_get e job 0 INDEX_URL of
        Raised err \<Rightarrow> (Inl err, [Request INDEX_URL])
      | Response status_code reason text \<Rightarrow>
          (case html_parser e text of
             Inl err \<Rightarrow> (Inl err, [Request INDEX_URL])
           | Inr soup \<Rightarrow>
               (case List.find (\<lambda>t. named ''input'' t \<and> has_attr ''name'' ''csrfmiddlewaretoken'' t)
                       (descendants_list soup) of
                  None \<Rightarrow> (Inl (ValueError ''CSRF token not found.''), [Request INDEX_URL])
                | Some token_input \<Rightarrow> (get_attr token_input ''value'', [Request INDEX_URL]))))"

text \<open>
  The \<open>try\<close> body of \<open>AdmetLabScraper._process_batch\<close> (admetlab.py, lines 213 to 225),
  every step in order.  Without a CSV link in the page, \<open>session.get(None)\<close> raises before
  any request is sent.
\<close>

definition process_batch_try :: "env \<Rightarrow> nat \<Rightarrow> string list \<Rightarrow> (exn + frame) \<times> event list" where
  "process_batch_try e job smiles_batch =
     (case get_csrf_token e job of
        (Inl err, evs) \<Rightarrow> (Inl err, evs)
      | (Inr token, evs) \<Rightarrow>
          (case requests_post e job 1 POST_URL
                  [(''csrfmiddlewaretoken'', token),
                   (''smiles-list'', py_join [CHR 0x0D, CHR 0x0A] smiles_batch),
                   (''method'', ''2'')] of
             Raised err \<Rightarrow> (Inl err, evs @ [Request POST_URL])
           | Response status_code reason text \<Rightarrow>
               (case html_parser e text of
                  Inl err \<Rightarrow> (Inl err, evs @ [Request POST_URL])
                | Inr soup \<Rightarrow>
                    (case parse_summary e soup of
                       Inl err \<Rightarrow> (Inl err, evs @ [Request POST_URL])
                     | Inr summary \<Rightarrow>
                         (case get_csv_url e soup of
                            None \<Rightarrow>
                              (Inl (RequestException
                                 (''Invalid URL '' @ [CHR 0x27] @ ''None'' @ [CHR 0x27]
                                  @ '': No scheme supplied. Perhaps you meant https://None?'')),
                               evs @ [Request POST_URL])
                          | Some csv_url \<Rightarrow>
                              (case requests_get e job 2 csv_url of
                                 Raised err \<Rightarrow> (Inl err, evs @ [Request POST_URL, Request csv_url])
                               | Response csv_status csv_reason csv_text \<Rightarrow>
                                   (case read_csv e csv_text of
                                      Inl err \<Rightarrow>
                                        (Inl err, evs @ [Request POST_URL, Request csv_url])
                                    | Inr df \<Rightarrow>
                                        (Inr df, evs @ [Request POST_URL, Request csv_url]))))))))"

text \<open>The log line of the handler (admetlab.py, line 227).\<close>

definition batch_failed_line :: "exn \<Rightarrow> string" where
  "batch_failed_line err = ''[red]* Failed to process batch: '' @ exn_message err @ ''[/]''"

text \<open>
  \<open>AdmetLabScraper._process_batch\<close> (admetlab.py, lines 202 to 228): the \<open>try\<close> body and
  the handler, which logs the failure and returns \<open>pd.DataFrame()\<close>.
\<close>

definition process_batch :: "env \<Rightarrow> nat \<Rightarrow> string list \<Rightarrow> (exn + frame) \<times> event list" where
  "process_batch e job smiles_batch =
     (case process_batch_try e job smiles_batch of
        (Inr df, evs) \<Rightarrow> (Inr df, evs)
      | (Inl err, evs) \<Rightarrow>
          (case markup_error e (batch_failed_line err) of
             Some err' \<Rightarrow> (Inl err', evs)
           | None \<Rightarrow> (Inr empty_frame, evs)))"

text \<open>The argument of \<open>AdmetLabScraper.run\<close>: a string, a list, or anything else.\<close>

datatype admet_input = SmilesStr string | SmilesList "string list" | NotStrOrList

text \<open>
  \<open>AdmetLabScraper.run\<close> (admetlab.py, lines 230 to 280).  The concatenation is guarded:
  without results the run returns \<open>pd.DataFrame()\<close>.
\<close>

definition admetlab_futures :: "env \<Rightarrow> string list list \<Rightarrow> ((exn + frame) \<times> event list) list" where
  "admetlab_futures e batches =
     map (\<lambda>(i, batch). process_batch e i batch) (enumerate 0 batches)"

definition admetlab_run_list ::
  "env \<Rightarrow> AdmetLabScraper \<Rightarrow>
     (((exn + frame) \<times> event list) list \<Rightarrow> ((exn + frame) \<times> event list) list) \<Rightarrow>
     string list \<Rightarrow> (exn + frame) \<times> event list" where
  "admetlab_run_list e self sched smiles_list =
     (case chunks self smiles_list of
        Inl err \<Rightarrow> (Inl err, [])
      | Inr batches \<Rightarrow>
          (case executor_error (al_max_workers self) of
             Some err \<Rightarrow> (Inl err, [])
           | None \<Rightarrow>
               (let completed = sched (admetlab_futures e batches) in
                (and_then (collect_results (map fst completed))
                   (\<lambda>results. if results = [] then Inr empty_frame else pd_concat results),
                 concat (map snd completed)))))"

definition admetlab_run ::
  "env \<Rightarrow> AdmetLabScraper \<Rightarrow>
     (((exn + frame) \<times> event list) list \<Rightarrow> ((exn + frame) \<times> event list) list) \<Rightarrow>
     admet_input \<Rightarrow> (exn + frame) \<times> event list" where
  "admetlab_run e self sched inp =
     (case inp of
        SmilesStr s \<Rightarrow> admetlab_run_list e self sched [s]
      | SmilesList l \<Rightarrow> admetlab_run_list e self sched l
      | NotStrOrList \<Rightarrow> (Inl (TypeError ''SMILES must be a string or list of strings.''), []))"

section \<open>knapsack.py\<close>

record KnapsackScraper =
  search_type :: string
  keyword :: string
  ks_max_workers :: int

definition KNAPSACK_BASE_URL :: string where
  "KNAPSACK_BASE_URL = ''https://www.knapsackfamily.com/knapsack_core/result.php''"

definition DETAIL_URL :: string where
  "DETAIL_URL = ''https://www.knapsackfamily.com/knapsack_core/information.php?word=''"

definition build_url :: "env \<Rightarrow> KnapsackScraper \<Rightarrow> string" where
  "build_url e self =
     KNAPSACK_BASE_URL @ ''?sname='' @ search_type self @ ''&word='' @ quote e (keyword self)"

text \<open>
  \<open>KnapsackScraper.fetch_html\<close> (knapsack.py, lines 87 to 103).  \<open>raise_for_status\<close> raises
  for the status codes 400 to 599, with the status, the reason and the URL in the message.
\<close>

definition knapsack_fetch_html :: "env \<Rightarrow> nat \<Rightarrow> string \<Rightarrow> exn + string" where
  "knapsack_fetch_html e job url =
     (case requests_get e job 0 url of
        Raised err \<Rightarrow> Inl err
      | Response status_code reason text \<Rightarrow>
          if 400 \<le> status_code \<and> status_code < 500
          then Inl (RequestException (show_int status_code @ '' Client Error: '' @ reason
                                      @ '' for url: '' @ url))
          else if 500 \<le> status_code \<and> status_code < 600
          then Inl (RequestException (show_int status_code @ '' Server Error: '' @ reason
                                      @ '' for url: '' @ url))
          else Inr text)"

definition main_columns :: "string list" where
  "main_columns = [''C_ID'', ''CAS_ID'', ''Metabolite'', ''Molecular_Formula'', ''Mw'',
                   ''Organism or InChIKey etc.'']"

text \<open>\<open>KnapsackScraper.parse_main_table\<close> (knapsack.py, lines 105 to 130).\<close>

definition parse_main_soup :: "node list \<Rightarrow> exn + frame" where
  "parse_main_soup soup =
     (case soup_find ''table'' soup of
        None \<Rightarrow> Inr empty_frame
      | Some table \<Rightarrow>
          pd_DataFrame main_columns
            (map (\<lambda>row. map (\<lambda>col. Str (get_text_strip col)) (find_all ''td'' row))
               (find_all ''tr'' table)))"

definition parse_main_table :: "env \<Rightarrow> string \<Rightarrow> exn + frame" where
  "parse_main_table e html = and_then (html_parser e html) parse_main_soup"

text \<open>
  \<open>KnapsackScraper.parse_organism_table\<close> (knapsack.py, lines 133 to 154): the rows after
  the first, each with at least four cells.
\<close>

definition organism_row :: "node \<Rightarrow> (string \<times> string) list option" where
  "organism_row row =
     (case find_all ''td'' row of
        c0 # c1 # c2 # c3 # cols \<Rightarrow>
          Some [(''kingdom'', get_text_strip c0), (''family'', get_text_strip c1),
                (''species'', get_text_strip c2), (''reference'', get_text_strip c3)]
      | _ \<Rightarrow> None)"

definition parse_organism_table :: "node \<Rightarrow> (string \<times> string) list list" where
  "parse_organism_table organism_table =
     List.map_filter organism_row (tl (find_all ''tr'' organism_table))"

text \<open>The detail fields of a compound.\<close>

record detail_fields =
  InChIKey :: cell
  InChICode :: cell
  SMILES :: cell
  image_url :: cell
  Organism :: cell

definition null_fields :: detail_fields where
  "null_fields = \<lparr>InChIKey = Null, InChICode = Null, SMILES = Null, image_url = Null,
                  Organism = Null\<rparr>"

definition detail_columns :: "string list" where
  "detail_columns = [''C_ID'', ''InChIKey'', ''InChICode'', ''SMILES'', ''image_url'', ''Organism'']"

text \<open>A detail dict, as the row of its values in key order.\<close>

definition detail_dict :: "cell \<Rightarrow> detail_fields \<Rightarrow> cell list" where
  "detail_dict cid d = [cid, InChIKey d, InChICode d, SMILES d, image_url d, Organism d]"

text \<open>
  One round of the loop over the rows of the detail table (knapsack.py, lines 181 to 199):
  the row comes with the elements after it in the document, among which \<open>find_next\<close>
  looks for the organism table.
\<close>

definition detail_row_step :: "node \<times> node list \<Rightarrow> detail_fields \<Rightarrow> detail_fields" where
  "detail_row_step rw detail =
     (case rw of
        (row, after) \<Rightarrow>
          (case List.find (\<lambda>t. named ''th'' t \<and> has_class ''inf'' t) (descendants row) of
             None \<Rightarrow> detail
           | Some header \<Rightarrow>
               (let label = get_text_strip header;
                    val = (case List.find (named ''td'') (descendants row) of
                             None \<Rightarrow> Null
                           | Some td \<Rightarrow> Str (get_text_strip td))
                in if label = ''InChIKey'' then detail\<lparr>InChIKey := val\<rparr>
                   else if label = ''InChICode'' then detail\<lparr>InChICode := val\<rparr>
                   else if label = ''SMILES'' then detail\<lparr>SMILES := val\<rparr>
                   else if label = ''Organism''
                   then (case List.find (named ''table'') after of
                           None \<Rightarrow> detail
                         | Some organism_table \<Rightarrow>
                             detail\<lparr>Organism := Dicts (parse_organism_table organism_table)\<rparr>)
                   else detail)))"

text \<open>
  The extraction of \<open>get_detail_by_cid\<close> from the parsed page (knapsack.py, lines 170 to
  204): the rows of the first table of class \<open>d3\<close>, then the image.  The descendants of a
  tag are the elements that follow it in the document, as many as it has.
\<close>

definition extract_detail :: "node list \<Rightarrow> detail_fields" where
  "extract_detail soup =
     (let detail =
            (case List.find (\<lambda>(t, after). named ''table'' t \<and> has_class ''d3'' t)
                    (next_elements (descendants_list soup)) of
               None \<Rightarrow> null_fields
             | Some (table, after) \<Rightarrow>
                 fold detail_row_step
                   (filter (\<lambda>(t, after). named ''tr'' t)
                      (take (length (descendants table)) (next_elements after)))
                   null_fields)
      in case List.find (\<lambda>t. named ''img'' t \<and> has_attr ''property'' ''image'' t)
                (descendants_list soup) of
           None \<Rightarrow> detail
         | Some image_tag \<Rightarrow>
             (case tag_get image_tag ''src'' of
                None \<Rightarrow> detail
              | Some src \<Rightarrow>
                  if src = [] then detail
                  else detail\<lparr>image_url := Str (''https://www.knapsackfamily.com'' @ src)\<rparr>))"

text \<open>
  The \<open>try\<close> body of \<open>KnapsackScraper.get_detail_by_cid\<close> (knapsack.py, lines 166 to 207).
  A C_ID that is not a string makes \<open>quote\<close> raise.
\<close>

definition get_detail_try :: "env \<Rightarrow> nat \<Rightarrow> cell \<Rightarrow> exn + detail_fields" where
  "get_detail_try e job cid =
     (case cid of
        Str s \<Rightarrow>
          and_then (knapsack_fetch_html e job (DETAIL_URL @ quote e s)) (\<lambda>html.
          and_then (html_parser e html) (\<lambda>soup. Inr (extract_detail soup)))
      | _ \<Rightarrow> Inl (TypeError ''quote_from_bytes() expected bytes''))"

text \<open>
  The log lines of knapsack.py that carry a value of the caller (lines 211 and 231).  The
  C_ID of a listing row is a string or \<open>None\<close>; other cells do not occur there.
\<close>

fun cell_str :: "cell \<Rightarrow> string" where
  "cell_str Null = ''None''"
| "cell_str (Str s) = s"
| "cell_str (ResultSet ns) = ''[...]''"
| "cell_str (Dicts ds) = ''[...]''"

definition detail_failed_line :: "cell \<Rightarrow> exn \<Rightarrow> string" where
  "detail_failed_line cid err =
     ''* Failed to retrieve details for '' @ cell_str cid @ '': '' @ exn_message err"

definition search_line :: "string \<Rightarrow> string \<Rightarrow> string" where
  "search_line kw st =
     ''* Searching data for keyword: '' @ [CHR 0x27] @ kw @ [CHR 0x27]
     @ '' (type: '' @ st @ '')''"

text \<open>
  \<open>KnapsackScraper.get_detail_by_cid\<close> (knapsack.py, lines 156 to 215).  The dict carries
  the given C_ID on both paths; the handler logs the failure before it returns the dict
  of nulls, and what that logging call raises leaves the function.
\<close>

definition get_detail_by_cid :: "env \<Rightarrow> nat \<Rightarrow> cell \<Rightarrow> exn + cell list" where
  "get_detail_by_cid e job cid =
     (case get_detail_try e job cid of
        Inr d \<Rightarrow> Inr (detail_dict cid d)
      | Inl err \<Rightarrow>
          (case markup_error e (detail_failed_line cid err) of
             Some err' \<Rightarrow> Inl err'
           | None \<Rightarrow> Inr (detail_dict cid null_fields)))"

text \<open>
  The loop over \<open>as_completed\<close> in \<open>search\<close>: \<open>future.result()\<close> raises what the lookup
  raised, otherwise the dict is appended.
\<close>

fun collect_details :: "(exn + cell list) list \<Rightarrow> exn + cell list list" where
  "collect_details [] = Inr []"
| "collect_details (Inl err # futures) = Inl err"
| "collect_details (Inr detail # futures) =
     (case collect_details futures of
        Inl err \<Rightarrow> Inl err
      | Inr detail_list \<Rightarrow> Inr (detail # detail_list))"

text \<open>
  \<open>KnapsackScraper.search\<close> (knapsack.py, lines 217 to 263).  The listing is request 0,
  the detail lookup of listing row \<open>i\<close> is job \<open>i + 1\<close>; \<open>sched\<close> is the order in which the
  lookups complete.
\<close>

definition detail_futures :: "env \<Rightarrow> cell list \<Rightarrow> (exn + cell list) list" where
  "detail_futures e cids = map (\<lambda>(i, cid). get_detail_by_cid e (Suc i) cid) (enumerate 0 cids)"

definition search ::
  "env \<Rightarrow> KnapsackScraper \<Rightarrow> ((exn + cell list) list \<Rightarrow> (exn + cell list) list) \<Rightarrow> exn + frame" where
  "search e self sched =
     (case markup_error e (search_line (keyword self) (search_type self)) of
        Some err \<Rightarrow> Inl err
      | None \<Rightarrow>
          and_then (knapsack_fetch_html e 0 (build_url e self)) (\<lambda>html.
          and_then (parse_main_table e html) (\<lambda>df_main.
            if df_empty df_main then Inr df_main
            else (case executor_error (ks_max_workers self) of
                    Some err \<Rightarrow> Inl err
                  | None \<Rightarrow>
                      and_then (column df_main ''C_ID'') (\<lambda>cids.
                      and_then (collect_details (sched (detail_futures e cids))) (\<lambda>detail_list.
                        pd_merge_left df_main
                          \<lparr>columns = detail_columns, rows = detail_list\<rparr> ''C_ID''))))))"

section \<open>Vocabulary of the claims\<close>

text \<open>The property columns of protox.py with the labels they are looked up by.\<close>

definition protox_fields :: "(string \<times> string) list" where
  "protox_fields =
     [(''Predicted LD50'', ''Predicted LD50''),
      (''Toxicity Class'', ''Predicted Toxicity Class''),
      (''Average Similarity'', ''Average similarity''),
      (''Prediction Accuracy'', ''Prediction accuracy'')]"

text \<open>A label is matched in a protox document when some \<open>h1\<close> has a string containing it.\<close>

definition h1_matches :: "node list \<Rightarrow> string \<Rightarrow> bool" where
  "h1_matches soup label =
     (\<exists>t \<in> set (descendants_list soup). named ''h1'' t \<and>
        (case dot_string t of None \<Rightarrow> False | Some s \<Rightarrow> s \<noteq> [] \<and> py_in label s))"

text \<open>The property columns of molsoft.py with the keys they are looked up by.\<close>

definition molsoft_fields :: "(string \<times> string) list" where
  "molsoft_fields =
     [(''Molecular formula'', ''Molecular formula:''),
      (''Molecular weight'', ''Molecular weight:''),
      (''HBA'', ''Number of HBA:''),
      (''HBD'', ''Number of HBD:''),
      (''MolLogP'', ''MolLogP :''),
      (''MolLogS'', ''MolLogS :''),
      (''MolPSA'', ''MolPSA :''),
      (''MolVol'', ''MolVol :''),
      (''pKa'', ''pKa of most Basic/Acidic group :''),
      (''BBB Score'', ''BBB Score :''),
      (''Number of stereo centers'', ''Number of stereo centers:'')]"

text \<open>
  A key is matched in a molsoft document when the text of some \<open>b\<close> tag contains it.  The
  matched label is the first such tag; it is followed by an element when its next
  sibling is a tag, and by a bare element when that tag has no descendant tag named
  \<open>strip\<close>.
\<close>

definition label_matched :: "(node \<times> node option) list \<Rightarrow> string \<Rightarrow> bool" where
  "label_matched b_tags key = (\<exists>(b, sib) \<in> set b_tags. py_in key (get_text b))"

definition followed_by_tag :: "(node \<times> node option) list \<Rightarrow> string \<Rightarrow> bool" where
  "followed_by_tag b_tags key =
     (case List.find (\<lambda>(b, sib). py_in key (get_text b)) b_tags of
        Some (tag, Some (Tag n a ks)) \<Rightarrow> True
      | _ \<Rightarrow> False)"

definition followed_by_bare_tag :: "(node \<times> node option) list \<Rightarrow> string \<Rightarrow> bool" where
  "followed_by_bare_tag b_tags key =
     (case List.find (\<lambda>(b, sib). py_in key (get_text b)) b_tags of
        Some (tag, Some (Tag n a ks)) \<Rightarrow> List.find (named ''strip'') (descendants_list ks) = None
      | _ \<Rightarrow> False)"

text \<open>The detail fields of a dict, in the order of the detail columns after \<open>C_ID\<close>.\<close>

definition detail_cells :: "detail_fields \<Rightarrow> cell list" where
  "detail_cells d = [InChIKey d, InChICode d, SMILES d, image_url d, Organism d]"

text \<open>Whether the \<open>try\<close> body of \<open>get_detail_by_cid\<close> raises for a lookup.\<close>

definition detail_lookup_fails :: "env \<Rightarrow> nat \<Rightarrow> cell \<Rightarrow> bool" where
  "detail_lookup_fails e job cid = isl (get_detail_try e job cid)"

section \<open>Example environments\<close>

text \<open>
  Documents that the example parser knows: a ProTox result page, a Molsoft page with one
  label and its value, a Molsoft page with a label directly followed by a line break,
  and a document that \<open>html.parser\<close> rejects (a marked section with an unknown keyword).
  Every other document is parsed to the empty soup.
\<close>

definition result_page :: string where
  "result_page = ''<h1>Predicted LD50: 200mg/kg</h1>''"

definition result_soup :: "node list" where
  "result_soup = [Tag ''h1'' [] [NavigableString ''Predicted LD50: 200mg/kg'']]"

definition label_value_page :: string where
  "label_value_page = ''<b>Molecular formula:</b> C2 H6 O ''"

definition label_value_soup :: "node list" where
  "label_value_soup =
     [Tag ''b'' [] [NavigableString ''Molecular formula:''], NavigableString '' C2 H6 O '']"

definition break_page :: string where
  "break_page = ''<b>Molecular formula:</b><br>''"

definition break_soup :: "node list" where
  "break_soup = [Tag ''b'' [] [NavigableString ''Molecular formula:''], Tag ''br'' [] []]"

definition rejected_page :: string where
  "rejected_page = ''<![x[y]]>''"

definition example_parser :: "string \<Rightarrow> exn + node list" where
  "example_parser html =
     (if html = result_page then Inr result_soup
      else if html = label_value_page then Inr label_value_soup
      else if html = break_page then Inr break_soup
      else if html = rejected_page
      then Inl (ParserRejectedMarkup
                  (''unknown status keyword '' @ [CHR 0x27] @ ''x'' @ [CHR 0x27]
                   @ '' in marked section''))
      else Inr [])"

text \<open>
  A server that answers the first two requests of job 0 with the rate-limit page and
  every other request with a result page; RDKit accepts every SMILES but \<open>invalid\<close>.
  No style name is rewritten, and no tag parameter is refused.
\<close>

definition throttling_env :: env where
  "throttling_env =
     \<lparr>rdkit_molblock = (\<lambda>smiles. if smiles = ''invalid'' then None else Some smiles),
      requests_post = (\<lambda>job attempt url data.
         if job = 0 \<and> attempt < 2 then Response 200 ''OK'' rate_limit_marker
         else Response 200 ''OK'' result_page),
      requests_get = (\<lambda>job attempt url. Raised (RequestException ''offline'')),
      html_parser = example_parser,
      quote = (\<lambda>s. s),
      recursion_limit = 1000,
      style_normalize = (\<lambda>s. s),
      literal_eval_error = (\<lambda>p. None),
      parse_summary = (\<lambda>soup. Inr []),
      get_csv_url = (\<lambda>soup. None),
      read_csv = (\<lambda>text. Inl (ValueError ''No columns to parse from file''))\<rparr>"

text \<open>The same, with a server that answers every request with a result page.\<close>

definition serving_env :: env where
  "serving_env =
     throttling_env\<lparr>requests_post := (\<lambda>job attempt url data. Response 200 ''OK'' result_page)\<rparr>"


text \<open>
  A KNApSAcK server with a listing of two rows: the detail page of the first row is
  served, the lookup of the second row is answered with status 404.
\<close>

definition listing_soup :: "node list" where
  "listing_soup =
     [Tag ''table'' []
        [Tag ''tr'' []
           [Tag ''td'' [] [NavigableString ''C00001''], Tag ''td'' [] [NavigableString ''50-00-0''],
            Tag ''td'' [] [NavigableString ''Formaldehyde''], Tag ''td'' [] [NavigableString ''CH2O''],
            Tag ''td'' [] [NavigableString ''30.01''], Tag ''td'' [] [NavigableString ''Ginkgo biloba'']],
         Tag ''tr'' []
           [Tag ''td'' [] [NavigableString ''C00002''], Tag ''td'' [] [NavigableString ''64-17-5''],
            Tag ''td'' [] [NavigableString ''Ethanol''], Tag ''td'' [] [NavigableString ''C2H6O''],
            Tag ''td'' [] [NavigableString ''46.04''], Tag ''td'' [] [NavigableString ''Ginkgo biloba'']]]]"

definition listing_rows :: "cell list list" where
  "listing_rows =
     [[Str ''C00001'', Str ''50-00-0'', Str ''Formaldehyde'', Str ''CH2O'', Str ''30.01'',
       Str ''Ginkgo biloba''],
      [Str ''C00002'', Str ''64-17-5'', Str ''Ethanol'', Str ''C2H6O'', Str ''46.04'',
       Str ''Ginkgo biloba'']]"

text \<open>
  The detail page of the first row: the table of class \<open>d3\<close> with the three identifier
  rows and the organism row, whose cell holds the organism table, and the image.
\<close>

definition organism_soup :: node where
  "organism_soup =
     Tag ''table'' []
       [Tag ''tr'' []
          [Tag ''th'' [] [NavigableString ''Kingdom''], Tag ''th'' [] [NavigableString ''Family''],
           Tag ''th'' [] [NavigableString ''Species''], Tag ''th'' [] [NavigableString ''Reference'']],
        Tag ''tr'' []
          [Tag ''td'' [] [NavigableString ''Plantae''], Tag ''td'' [] [NavigableString ''Ginkgoaceae''],
           Tag ''td'' [] [NavigableString ''Ginkgo biloba''], Tag ''td'' [] [NavigableString ''Ref.1'']]]"

definition detail_soup :: "node list" where
  "detail_soup =
     [Tag ''table'' [(''class'', ''d3'')]
        [Tag ''tr'' []
           [Tag ''th'' [(''class'', ''inf'')] [NavigableString ''InChIKey''],
            Tag ''td'' [] [NavigableString ''WSFSSNUMVMOOMR-UHFFFAOYSA-N'']],
         Tag ''tr'' []
           [Tag ''th'' [(''class'', ''inf'')] [NavigableString ''InChICode''],
            Tag ''td'' [] [NavigableString ''InChI=1S/CH2O/c1-2/h1H2'']],
         Tag ''tr'' []
           [Tag ''th'' [(''class'', ''inf'')] [NavigableString ''SMILES''],
            Tag ''td'' [] [NavigableString ''C=O'']],
         Tag ''tr'' []
           [Tag ''th'' [(''class'', ''inf'')] [NavigableString ''Organism''],
            Tag ''td'' [] [organism_soup]]],
      Tag ''img'' [(''property'', ''image''), (''src'', ''/knapsack_core/image.php?word=C00001'')] []]"

text \<open>A detail page that offers the InChIKey only.\<close>

definition partial_soup :: "node list" where
  "partial_soup =
     [Tag ''table'' [(''class'', ''d3'')]
        [Tag ''tr'' []
           [Tag ''th'' [(''class'', ''inf'')] [NavigableString ''InChIKey''],
            Tag ''td'' [] [NavigableString ''WSFSSNUMVMOOMR-UHFFFAOYSA-N'']]]]"

definition formaldehyde_detail :: detail_fields where
  "formaldehyde_detail =
     \<lparr>InChIKey = Str ''WSFSSNUMVMOOMR-UHFFFAOYSA-N'', InChICode = Str ''InChI=1S/CH2O/c1-2/h1H2'',
      SMILES = Str ''C=O'',
      image_url = Str ''https://www.knapsackfamily.com/knapsack_core/image.php?word=C00001'',
      Organism = Dicts [[(''kingdom'', ''Plantae''), (''family'', ''Ginkgoaceae''),
                         (''species'', ''Ginkgo biloba''), (''reference'', ''Ref.1'')]]\<rparr>"

definition knapsack_env :: "node list \<Rightarrow> env" where
  "knapsack_env page =
     \<lparr>rdkit_molblock = (\<lambda>smiles. Some smiles),
      requests_post = (\<lambda>job attempt url data. Raised (RequestException ''offline'')),
      requests_get = (\<lambda>job attempt url.
         if job = 0 then Response 200 ''OK'' ''listing''
         else if job = 1 then Response 200 ''OK'' ''detail''
         else Response 404 ''Not Found'' []),
      html_parser = (\<lambda>html. if html = ''listing'' then Inr listing_soup
                             else if html = ''detail'' then Inr page else Inr []),
      quote = (\<lambda>s. s),
      recursion_limit = 1000,
      style_normalize = (\<lambda>s. s),
      literal_eval_error = (\<lambda>p. None),
      parse_summary = (\<lambda>soup. Inr []),
      get_csv_url = (\<lambda>soup. None),
      read_csv = (\<lambda>text. Inl (ValueError ''No columns to parse from file''))\<rparr>"

definition ginkgo_search :: KnapsackScraper where
  "ginkgo_search = \<lparr>search_type = ''all'', keyword = ''Ginkgo Biloba'', ks_max_workers = 5\<rparr>"

section \<open>Properties of construction and batching\<close>

lemma ceil_div_step:
  fixes d m :: nat
  assumes "0 < m" "0 < d"
  shows "(d + m - 1) div m = Suc ((d - m + m - 1) div m)"
proof (cases "m \<le> d")
  case True
  define k where "k = d - m + m - 1"
  have "d + m - 1 = k + m" using True assms by (simp add: k_def)
  then have "(d + m - 1) div m = (k + m) div m" by simp
  also have "\<dots> = Suc (k div m)" using assms by simp
  finally show ?thesis by (simp add: k_def)
next
  case False
  then have z: "d - m + m - 1 = m - 1" by simp
  have "m * 1 \<le> d + m - 1" "d + m - 1 < m * Suc 1" using False assms by simp_all
  then have "(d + m - 1) div m = 1" by (rule div_nat_eqI)
  moreover have "(m - 1) div m = 0" using assms by simp
  ultimately show ?thesis using z by simp
qed

lemma range_from_length:
  "0 < step \<Longrightarrow> length (range_from i stop step) = (stop - i + step - 1) div step"
proof (induction i stop step rule: range_from.induct)
  case (1 i stop step)
  show ?case
  proof (cases "stop \<le> i")
    case True
    with "1.prems" show ?thesis by (simp add: range_from.simps)
  next
    case False
    have ih: "length (range_from (i + step) stop step) = (stop - (i + step) + step - 1) div step"
      using "1.IH" "1.prems" False by simp
    have unf: "range_from i stop step = i # range_from (i + step) stop step"
      using False "1.prems" by (subst range_from.simps) simp
    have "(stop - i + step - 1) div step = Suc ((stop - i - step + step - 1) div step)"
      using ceil_div_step [of step "stop - i"] False "1.prems" by simp
    with ih unf show ?thesis by simp
  qed
qed

lemma range_from_nth:
  "0 < step \<Longrightarrow> k < length (range_from i stop step) \<Longrightarrow>
     range_from i stop step ! k = i + k * step \<and> i + k * step < stop"
proof (induction i stop step arbitrary: k rule: range_from.induct)
  case (1 i stop step)
  from "1.prems" have ne: "\<not> (step = 0 \<or> stop \<le> i)"
    by (auto simp: range_from.simps)
  then have unf: "range_from i stop step = i # range_from (i + step) stop step"
    by (subst range_from.simps) simp
  show ?case
  proof (cases k)
    case 0
    with ne unf show ?thesis by simp
  next
    case (Suc k')
    with "1.prems" unf have "k' < length (range_from (i + step) stop step)" by simp
    from "1.IH" [OF ne "1.prems"(1) this] Suc unf show ?thesis
      by (simp add: algebra_simps)
  qed
qed

lemma range_from_concat:
  "0 < step \<Longrightarrow>
     concat (map (\<lambda>j. py_slice xs j (j + step)) (range_from i (length xs) step)) = drop i xs"
proof (induction i "length xs" step rule: range_from.induct)
  case (1 i step)
  show ?case
  proof (cases "length xs \<le> i")
    case True
    then show ?thesis by (simp add: range_from.simps)
  next
    case False
    with "1.prems" have unf:
      "range_from i (length xs) step = i # range_from (i + step) (length xs) step"
      by (subst range_from.simps) simp
    have ih: "concat (map (\<lambda>j. py_slice xs j (j + step)) (range_from (i + step) (length xs) step))
                = drop (i + step) xs"
      using "1.hyps" "1.prems" False by simp
    have "take step (drop i xs) @ drop (i + step) xs = drop i xs"
      by (metis add.commute append_take_drop_id drop_drop)
    with unf ih show ?thesis by (simp add: py_slice_def)
  qed
qed

lemma chunks_Inr:
  "0 < max_batch_size self \<Longrightarrow>
     chunks self xs =
       Inr (map (\<lambda>i. py_slice xs i (i + nat (max_batch_size self)))
              (range_from 0 (length xs) (nat (max_batch_size self))))"
  by (simp add: chunks_def py_range_def)

lemma ceiling_div_nat:
  fixes n m :: nat
  assumes "0 < m"
  shows "\<lceil>real n / real m\<rceil> = int ((n + m - 1) div m)"
proof (rule ceiling_unique)
  let ?q = "(n + m - 1) div m"
  have a: "?q * m \<le> n + m - 1" by simp
  have b: "n + m - 1 < ?q * m + m"
    using assms by (metis add.commute dividend_less_div_times mult.commute)
  have c: "n \<le> ?q * m" using b assms by linarith
  have d: "?q * m < n + m" using a assms by linarith
  from c have "real n \<le> real (?q * m)" by (rule of_nat_mono)
  then show "real n / real m \<le> of_int (int ?q)"
    using assms by (simp add: field_simps)
  from d have "real (?q * m) < real (n + m)" by (simp only: of_nat_less_iff)
  then show "of_int (int ?q) - 1 < real n / real m"
    using assms by (simp add: field_simps)
qed

section \<open>Claims about construction and batching\<close>

text \<open>
  Claim C7.  Constructing the batching scraper with a maximum batch size outside the
  range 1 to 100 fails with a \<open>ValueError\<close> (nothing has run yet: the constructor is the
  first thing called); for every value inside the range, construction succeeds and the
  scraper stores the given worker count and batch size unchanged.
\<close>

theorem init_validates_max_batch_size:
  "(m < 1 \<or> 100 < m \<longrightarrow> (\<exists>msg. AdmetLabScraper_init w m = Inl (ValueError msg))) \<and>
   (1 \<le> m \<and> m \<le> 100 \<longrightarrow>
      AdmetLabScraper_init w m = Inr \<lparr>al_max_workers = w, max_batch_size = m\<rparr>)"
  by (simp add: AdmetLabScraper_init_def)

theorem init_validates_max_batch_size_witness:
  "(\<exists>msg. AdmetLabScraper_init 4 0 = Inl (ValueError msg)) \<and>
   (\<exists>msg. AdmetLabScraper_init 4 101 = Inl (ValueError msg)) \<and>
   AdmetLabScraper_init 4 1 = Inr \<lparr>al_max_workers = 4, max_batch_size = 1\<rparr> \<and>
   AdmetLabScraper_init 4 100 = Inr \<lparr>al_max_workers = 4, max_batch_size = 100\<rparr>"
proof -
  have lo: "(0::int) < 1 \<or> 100 < (0::int)" and hi: "(101::int) < 1 \<or> 100 < (101::int)"
    and in1: "(1::int) \<le> 1 \<and> (1::int) \<le> 100" and in100: "(1::int) \<le> 100 \<and> (100::int) \<le> 100"
    by simp_all
  from init_validates_max_batch_size [of 0 4] lo
  have a: "\<exists>msg. AdmetLabScraper_init 4 0 = Inl (ValueError msg)" by blast
  from init_validates_max_batch_size [of 101 4] hi
  have b: "\<exists>msg. AdmetLabScraper_init 4 101 = Inl (ValueError msg)" by blast
  from init_validates_max_batch_size [of 1 4] in1
  have c: "AdmetLabScraper_init 4 1 = Inr \<lparr>al_max_workers = 4, max_batch_size = 1\<rparr>" by blast
  from init_validates_max_batch_size [of 100 4] in100
  have d: "AdmetLabScraper_init 4 100 = Inr \<lparr>al_max_workers = 4, max_batch_size = 100\<rparr>" by blast
  from a b c d show ?thesis by blast
qed

text \<open>
  Claim C3.  For every identifier list of length \<open>n\<close> and every scraper whose maximum
  batch size \<open>m\<close> is at least 1 (in particular every \<open>m\<close> from 1 to 100), the batching step
  returns batches, and there are exactly \<open>ceil(n/m)\<close> of them; every batch is non-empty and
  has at most \<open>m\<close> elements; every batch but the last has exactly \<open>m\<close>; and the batches
  concatenated in order are the input list.
\<close>

theorem chunks_partition:
  assumes "1 \<le> max_batch_size self"
  shows "\<exists>bs. chunks self xs = Inr bs
           \<and> int (length bs) = \<lceil>real (length xs) / real_of_int (max_batch_size self)\<rceil>
           \<and> (\<forall>b \<in> set bs. b \<noteq> [] \<and> int (length b) \<le> max_batch_size self)
           \<and> (\<forall>k. Suc k < length bs \<longrightarrow> int (length (bs ! k)) = max_batch_size self)
           \<and> concat bs = xs"
proof -
  define m where "m = nat (max_batch_size self)"
  have mpos: "0 < m" and mint: "max_batch_size self = int m"
    using assms by (simp_all add: m_def)
  define idx where "idx = range_from 0 (length xs) m"
  define bs where "bs = map (\<lambda>i. py_slice xs i (i + m)) idx"
  have eq: "chunks self xs = Inr bs"
    using chunks_Inr [of self xs] assms by (simp add: bs_def idx_def m_def)
  have len: "length bs = (length xs + m - 1) div m"
    using range_from_length [OF mpos, of 0 "length xs"] by (simp add: bs_def idx_def)
  have cnt: "int (length bs) = \<lceil>real (length xs) / real_of_int (max_batch_size self)\<rceil>"
    using ceiling_div_nat [OF mpos, of "length xs"] len by (simp add: mint)
  have nth: "\<And>k. k < length bs \<Longrightarrow> bs ! k = py_slice xs (k * m) (k * m + m) \<and> k * m < length xs"
    using range_from_nth [OF mpos, of _ 0 "length xs"] by (simp add: bs_def idx_def)
  have each: "\<forall>b \<in> set bs. b \<noteq> [] \<and> int (length b) \<le> max_batch_size self"
  proof
    fix b assume "b \<in> set bs"
    then obtain k where k: "k < length bs" "b = bs ! k" by (auto simp: in_set_conv_nth)
    from nth [OF k(1)] k(2) have b: "b = take m (drop (k * m) xs)" and lt: "k * m < length xs"
      by (simp_all add: py_slice_def)
    from b lt mpos show "b \<noteq> [] \<and> int (length b) \<le> max_batch_size self"
      by (simp add: mint)
  qed
  have full: "\<forall>k. Suc k < length bs \<longrightarrow> int (length (bs ! k)) = max_batch_size self"
  proof (intro allI impI)
    fix k assume sk: "Suc k < length bs"
    then have k: "k < length bs" by simp
    from nth [OF sk] have "Suc k * m < length xs" by simp
    then have "k * m + m \<le> length xs" by simp
    with nth [OF k] show "int (length (bs ! k)) = max_batch_size self"
      by (simp add: py_slice_def mint)
  qed
  have cat: "concat bs = xs"
    using range_from_concat [OF mpos, of xs 0] by (simp add: bs_def idx_def)
  from eq cnt each full cat show ?thesis by blast
qed

theorem chunks_partition_witness:
  "\<exists>bs. chunks \<lparr>al_max_workers = 4, max_batch_size = 2\<rparr> [''C'', ''CC'', ''CCC'', ''CCO'', ''CO''] = Inr bs
      \<and> int (length bs) = 3
      \<and> (\<forall>b \<in> set bs. b \<noteq> [] \<and> int (length b) \<le> 2)
      \<and> (\<forall>k. Suc k < length bs \<longrightarrow> int (length (bs ! k)) = 2)
      \<and> concat bs = [''C'', ''CC'', ''CCC'', ''CCO'', ''CO'']"
proof -
  have h: "1 \<le> max_batch_size \<lparr>al_max_workers = 4, max_batch_size = 2\<rparr>" by simp
  have c: "\<lceil>real (length [''C'', ''CC'', ''CCC'', ''CCO'', ''CO'']) / real_of_int 2\<rceil> = (3::int)"
    by (simp add: ceiling_eq_iff)
  from chunks_partition [OF h, of "[''C'', ''CC'', ''CCC'', ''CCO'', ''CO'']"] c
  show ?thesis by simp
qed

section \<open>Log lines\<close>

lemma render_tags_MarkupError:
  "render_tags e stack tags = Some err \<Longrightarrow> \<exists>m. err = MarkupError m"
proof (induction tags arbitrary: stack)
  case Nil
  then show ?case by simp
next
  case (Cons t tags)
  obtain position tag_text where t: "t = (position, tag_text)" by (cases t)
  from Cons.prems show ?case
    unfolding t
    by (auto simp: close_error_def split: if_splits option.splits list.splits prod.splits
          dest: Cons.IH)
qed

lemma markup_error_MarkupError:
  "markup_error e message = Some err \<Longrightarrow> \<exists>m. err = MarkupError m"
  by (auto simp: markup_error_def split: if_splits dest: render_tags_MarkupError)

text \<open>Characters that start no tag are passed over; a tag is taken as a whole.\<close>

lemma parse_tags_skip:
  assumes "\<forall>c \<in> set xs. c \<noteq> CHR ''['' \<and> \<not> is_backslash c"
  shows "parse_tags position (xs @ s) = parse_tags (position + length xs) s"
  using assms
proof (induction xs arbitrary: position)
  case Nil
  then show ?case by simp
next
  case (Cons c xs)
  then have c: "c \<noteq> CHR ''[''" "\<not> is_backslash c" by simp_all
  then have "match_tag (c # xs @ s) = None"
    by (simp add: match_tag_def split: list.splits)
  then have "parse_tags position ((c # xs) @ s) = parse_tags (Suc position) (xs @ s)"
    by (simp add: parse_tags.simps)
  with Cons show ?case by simp
qed

lemma takeWhile_upto: "y \<notin> set xs \<Longrightarrow> takeWhile (\<lambda>x. x \<noteq> y) (xs @ y # s) = xs"
  by (induction xs) auto

lemma dropWhile_upto: "y \<notin> set xs \<Longrightarrow> dropWhile (\<lambda>x. x \<noteq> y) (xs @ y # s) = y # s"
  by (induction xs) auto

lemma parse_tags_tag:
  assumes "tag_start_char t" and "CHR ''['' \<notin> set (t # ts)" and "CHR '']'' \<notin> set (t # ts)"
  shows "parse_tags position (CHR ''['' # t # ts @ CHR '']'' # s)
           = (position, t # ts) # parse_tags (position + length (t # ts) + 2) s"
proof -
  let ?P = "\<lambda>x. x \<noteq> CHR '']''"
  let ?s = "CHR ''['' # t # ts @ CHR '']'' # s"
  have tw: "takeWhile ?P (t # ts @ CHR '']'' # s) = t # ts"
    using assms(3) takeWhile_upto [of "CHR '']''" ts s] by auto
  have dw: "dropWhile ?P (t # ts @ CHR '']'' # s) = CHR '']'' # s"
    using assms(3) dropWhile_upto [of "CHR '']''" ts s] by auto
  have db: "dropWhile is_backslash ?s = ?s" and tb: "takeWhile is_backslash ?s = []"
    by (simp_all add: is_backslash_def)
  have "match_tag ?s = Some (0, t # ts, s)"
    using assms(1,2)
    by (simp add: match_tag_def db tb tw dw del: takeWhile.simps dropWhile.simps)
  then show ?thesis by (simp add: parse_tags.simps)
qed




section \<open>Rate limiting in protox.py\<close>












text \<open>
  Claim C4.  With \<open>auto_resume\<close> false, a fetch that the server answers with the
  rate-limit page does not always raise the \<open>RuntimeError\<close> of the rate limit: the
  warning is logged first, as console markup with the identifier in it, and for the
  identifier \<open>CCO [/]\<close> that logging call raises \<open>MarkupError\<close>, which is what \<open>fetch_html\<close>
  then raises, after its one request.
\<close>

theorem rate_limit_raises_markup_error:
  "fetch_html 1000 throttling_env (ProtoxScraper_init 4 False 10) 0 0 ''CCO [/]''
     = (Inl (MarkupError (''closing tag '' @ [CHR 0x27] @ ''[/]'' @ [CHR 0x27]
                          @ '' at position 55 has nothing to close'')),
        [Request PROTOX_URL])"
  by code_simp




section \<open>Jobs and runs of protox.py and molsoft.py\<close>

lemma collect_results_Inl: "collect_results fs = Inl err \<Longrightarrow> Inl err \<in> set fs"
  by (induction fs rule: collect_results.induct) (auto split: sum.splits)

lemma pd_concat_error: "pd_concat objs = Inl err \<Longrightarrow> err = ValueError ''No objects to concatenate''"
  by (auto simp: pd_concat_def split: if_splits)


lemma molsoft_process_single_raises:
  "fst (molsoft_process_single e self job smiles) = Inl err \<Longrightarrow> \<exists>m. err = MarkupError m"
  by (auto simp: molsoft_process_single_def split: prod.splits sum.splits option.splits
        dest: markup_error_MarkupError)

lemma run_error_generic:
  assumes perm: "\<forall>xs. mset (sched xs) = mset xs"
    and jobs: "\<forall>f \<in> set futures. \<forall>err. fst f = Inl err \<longrightarrow> (\<exists>m. err = MarkupError m)"
    and err: "and_then (collect_results (map fst (sched futures))) pd_concat = Inl err"
  shows "(\<exists>m. err = MarkupError m) \<or> err = ValueError ''No objects to concatenate''"
proof (cases "collect_results (map fst (sched futures))")
  case (Inl err')
  with err have e: "err' = err" by (simp add: and_then_def)
  from collect_results_Inl [OF Inl] obtain f where f: "f \<in> set (sched futures)" "fst f = Inl err'"
    by auto
  from perm have "set (sched futures) = set futures" by (metis set_mset_mset)
  with f jobs e show ?thesis by blast
next
  case (Inr results)
  with err have "pd_concat results = Inl err" by (simp add: and_then_def)
  from pd_concat_error [OF this] show ?thesis by simp
qed


lemma molsoft_run_error:
  assumes perm: "\<forall>xs. mset (sched xs) = mset xs"
    and err: "fst (molsoft_run e self sched inp) = Inl err"
  shows "(\<exists>m. err = MarkupError m) \<or> (\<exists>m. err = ValueError m)"
proof (cases "executor_error (ms_max_workers self)")
  case (Some err')
  with err show ?thesis
    by (auto simp: molsoft_run_def executor_error_def Let_def split: if_splits)
next
  case None
  let ?futures = "molsoft_futures e self (case inp of Single s \<Rightarrow> [s] | Many l \<Rightarrow> l)"
  have jobs: "\<forall>f \<in> set ?futures. \<forall>err. fst f = Inl err \<longrightarrow> (\<exists>m. err = MarkupError m)"
    by (auto simp: molsoft_futures_def dest: molsoft_process_single_raises)
  from err None have "and_then (collect_results (map fst (sched ?futures))) pd_concat = Inl err"
    by (simp add: molsoft_run_def Let_def)
  from run_error_generic [OF perm jobs this] show ?thesis by blast
qed

section \<open>Failure isolation\<close>

text \<open>
  The failure line of the identifier \<open>[/]\<close> closes a tag that is not open, whatever the
  error it reports, and so does the success line.
\<close>

lemma failed_line_closing:
  "markup_error e (failed_line ''[/]'' err)
     = Some (MarkupError (''closing tag '' @ [CHR 0x27] @ ''[/]'' @ [CHR 0x27]
                          @ '' at position 18 has nothing to close''))"
proof -
  let ?r5 = "'' | '' @ exn_message err"
  let ?r4 = "CHR ''['' # CHR ''/'' # [] @ CHR '']'' # ?r5"
  let ?r3 = "'' '' @ ?r4"
  let ?r2 = "CHR ''['' # CHR ''/'' # [] @ CHR '']'' # ?r3"
  let ?r1 = "''* Failed:'' @ ?r2"
  have l: "failed_line ''[/]'' err = CHR ''['' # CHR ''r'' # ''ed'' @ CHR '']'' # ?r1"
    by (simp add: failed_line_def)
  have s1: "parse_tags 0 (CHR ''['' # CHR ''r'' # ''ed'' @ CHR '']'' # ?r1)
              = (0, ''red'') # parse_tags (0 + length ''red'' + 2) ?r1"
    by (rule parse_tags_tag) (simp_all add: tag_start_char_def)
  have s2: "parse_tags (0 + length ''red'' + 2) ?r1
              = parse_tags (0 + length ''red'' + 2 + length ''* Failed:'') ?r2"
    by (rule parse_tags_skip) (simp add: is_backslash_def)
  have s3: "parse_tags (0 + length ''red'' + 2 + length ''* Failed:'') ?r2
              = (0 + length ''red'' + 2 + length ''* Failed:'', ''/'')
                # parse_tags (0 + length ''red'' + 2 + length ''* Failed:'' + length ''/'' + 2) ?r3"
    by (rule parse_tags_tag) (simp_all add: tag_start_char_def)
  have s4: "parse_tags (0 + length ''red'' + 2 + length ''* Failed:'' + length ''/'' + 2) ?r3
              = parse_tags (0 + length ''red'' + 2 + length ''* Failed:'' + length ''/'' + 2
                            + length '' '') ?r4"
    by (rule parse_tags_skip) (simp add: is_backslash_def)
  have s5: "parse_tags (0 + length ''red'' + 2 + length ''* Failed:'' + length ''/'' + 2
                        + length '' '') ?r4
              = (0 + length ''red'' + 2 + length ''* Failed:'' + length ''/'' + 2 + length '' '', ''/'')
                # parse_tags (0 + length ''red'' + 2 + length ''* Failed:'' + length ''/'' + 2
                              + length '' '' + length ''/'' + 2) ?r5"
    by (rule parse_tags_tag) (simp_all add: tag_start_char_def)
  have p: "parse_tags 0 (failed_line ''[/]'' err)
             = (0, ''red'') # (14, ''/'') # (18, ''/'') # parse_tags 21 ?r5"
    unfolding l s1 s2 s3 s4 s5 by (simp add: eval_nat_numeral)
  have n: "show_nat 18 = ''18''" by code_simp
  have "CHR ''['' \<in> set (failed_line ''[/]'' err)" by (simp add: failed_line_def)
  then show ?thesis
    unfolding markup_error_def p
    by (simp add: tag_name_def tag_parameters_def close_error_def py_strip_def n)
qed

lemma success_line_closing:
  "markup_error e (success_line ''[/]'')
     = Some (MarkupError (''closing tag '' @ [CHR 0x27] @ ''[/]'' @ [CHR 0x27]
                          @ '' at position 21 has nothing to close''))"
proof -
  have p: "parse_tags 0 (success_line ''[/]'') = [(0, ''green''), (17, ''/''), (21, ''/'')]"
    by code_simp
  have n: "show_nat 21 = ''21''" by code_simp
  have "CHR ''['' \<in> set (success_line ''[/]'')" by (simp add: success_line_def)
  then show ?thesis
    unfolding markup_error_def p
    by (simp add: tag_name_def tag_parameters_def close_error_def py_strip_def n)
qed

text \<open>
  Claim C1.  A failure of a job is not always converted into the job's empty result.
  The handler of \<open>process_single\<close> logs the identifier and the error as console markup
  before it returns, and for the identifier \<open>[/]\<close> that logging call raises
  \<open>MarkupError\<close>: the error leaves \<open>process_single\<close> of protox.py and of molsoft.py, in
  every environment and whatever the pipeline did.  In a run of two jobs it is raised to
  the caller of \<open>run\<close>, and the result of the sibling job \<open>CCO\<close>, which succeeded, is lost.
\<close>

theorem job_error_escapes_run:
  "fst (protox_process_single e px job ''[/]'')
     = Inl (MarkupError (''closing tag '' @ [CHR 0x27] @ ''[/]'' @ [CHR 0x27]
                         @ '' at position 18 has nothing to close''))
   \<and> fst (molsoft_process_single e ms job ''[/]'')
     = Inl (MarkupError (''closing tag '' @ [CHR 0x27] @ ''[/]'' @ [CHR 0x27]
                         @ '' at position 18 has nothing to close''))
   \<and> protox_run serving_env (ProtoxScraper_init 4 False 10) (\<lambda>xs. xs) (Many [''CCO'', ''[/]''])
     = (Inl (MarkupError (''closing tag '' @ [CHR 0x27] @ ''[/]'' @ [CHR 0x27]
                          @ '' at position 18 has nothing to close'')),
        [Request PROTOX_URL, Request PROTOX_URL])
   \<and> molsoft_run serving_env \<lparr>ms_max_workers = 4\<rparr> (\<lambda>xs. xs) (Many [''CCO'', ''[/]''])
     = (Inl (MarkupError (''closing tag '' @ [CHR 0x27] @ ''[/]'' @ [CHR 0x27]
                          @ '' at position 18 has nothing to close'')),
        [Request MOLSOFT_URL, Request MOLSOFT_URL])"
proof -
  have p: "fst (protox_process_single e px job ''[/]'')
     = Inl (MarkupError (''closing tag '' @ [CHR 0x27] @ ''[/]'' @ [CHR 0x27]
                         @ '' at position 18 has nothing to close''))"
    by (simp add: protox_process_single_def protox_try_def failed_line_closing
          success_line_closing split: prod.splits sum.splits)
  have m: "fst (molsoft_process_single e ms job ''[/]'')
     = Inl (MarkupError (''closing tag '' @ [CHR 0x27] @ ''[/]'' @ [CHR 0x27]
                         @ '' at position 18 has nothing to close''))"
    by (simp add: molsoft_process_single_def molsoft_try_def failed_line_closing
          success_line_closing split: prod.splits sum.splits)
  have pr: "protox_run serving_env (ProtoxScraper_init 4 False 10) (\<lambda>xs. xs) (Many [''CCO'', ''[/]''])
     = (Inl (MarkupError (''closing tag '' @ [CHR 0x27] @ ''[/]'' @ [CHR 0x27]
                          @ '' at position 18 has nothing to close'')),
        [Request PROTOX_URL, Request PROTOX_URL])"
    by code_simp
  have mr: "molsoft_run serving_env \<lparr>ms_max_workers = 4\<rparr> (\<lambda>xs. xs) (Many [''CCO'', ''[/]''])
     = (Inl (MarkupError (''closing tag '' @ [CHR 0x27] @ ''[/]'' @ [CHR 0x27]
                          @ '' at position 18 has nothing to close'')),
        [Request MOLSOFT_URL, Request MOLSOFT_URL])"
    by code_simp
  from p m pr mr show ?thesis by (intro conjI)
qed

section \<open>Runs without a successful job\<close>

text \<open>
  Claim C2.  \<open>run([])\<close> of protox.py and of molsoft.py does not return an empty table: with
  no job there is no result, and \<open>pd.concat\<close> of the empty list raises \<open>ValueError\<close>; when
  \<open>max_workers\<close> is not positive, the \<open>ValueError\<close> is that of the executor.  No network
  call is made.  (The empty list of futures has one completion order.)
\<close>

theorem run_on_empty_list_raises:
  "protox_run e px (\<lambda>xs. xs) (Many [])
     = (Inl (ValueError (if 0 < px_max_workers px then ''No objects to concatenate''
                         else ''max_workers must be greater than 0'')), [])
   \<and> molsoft_run e ms (\<lambda>xs. xs) (Many [])
     = (Inl (ValueError (if 0 < ms_max_workers ms then ''No objects to concatenate''
                         else ''max_workers must be greater than 0'')), [])"
  by (simp add: protox_run_def protox_futures_def molsoft_run_def molsoft_futures_def
        executor_error_def and_then_def pd_concat_def enumerate_simps)

text \<open>
  The sibling: \<open>run([])\<close> of admetlab.py guards the concatenation and returns the empty
  frame, with no network call, for every scraper that its constructor can return with
  a positive \<open>max_workers\<close>.
\<close>

lemma admetlab_run_on_empty_list:
  assumes "AdmetLabScraper_init w m = Inr self" and "0 < w"
  shows "admetlab_run e self (\<lambda>xs. xs) (SmilesList []) = (Inr empty_frame, [])"
proof -
  from assms have "0 < max_batch_size self" and "0 < al_max_workers self"
    by (auto simp: AdmetLabScraper_init_def split: if_splits)
  moreover from this have "chunks self ([]::string list) = Inr []"
    by (simp add: chunks_Inr range_from.simps)
  ultimately show ?thesis
    by (simp add: admetlab_run_def admetlab_run_list_def admetlab_futures_def
          executor_error_def and_then_def)
qed

text \<open>
  Claim C8.  A run in which every job fails (here one job, whose SMILES RDKit rejects:
  \<open>n = 1\<close>, \<open>k = 1\<close>) does not return a table with \<open>n - k = 0\<close> rows: \<open>pd.concat\<close> of the
  empty list of results raises \<open>ValueError\<close>.
\<close>

theorem run_without_success_raises:
  "protox_run throttling_env (ProtoxScraper_init 4 False 10) (\<lambda>xs. xs) (Single ''invalid'')
     = (Inl (ValueError ''No objects to concatenate''), [])
   \<and> molsoft_run throttling_env \<lparr>ms_max_workers = 4\<rparr> (\<lambda>xs. xs) (Single ''invalid'')
     = (Inl (ValueError ''No objects to concatenate''), [])"
  by code_simp

section \<open>A rate-limited job without auto-resume\<close>





section \<open>The extractors of protox.py and molsoft.py\<close>

lemma protox_columns_ok:
  "distinct protox_columns" "protox_columns \<noteq> []" "length protox_columns = 5"
  by (simp_all add: protox_columns_def)

lemma molsoft_columns_ok:
  "distinct molsoft_columns" "molsoft_columns \<noteq> []" "length molsoft_columns = 12"
  by (simp_all add: molsoft_columns_def)


lemma extract_text_unmatched:
  "\<not> h1_matches soup label \<Longrightarrow> extract_text soup label = Null"
proof -
  assume "\<not> h1_matches soup label"
  then have "List.find
               (\<lambda>t. named ''h1'' t \<and>
                    (case dot_string t of None \<Rightarrow> False | Some s \<Rightarrow> s \<noteq> [] \<and> py_in label s))
               (descendants_list soup) = None"
    by (simp add: h1_matches_def find_None_iff)
  then show ?thesis by (simp add: extract_text_def)
qed

lemma get_value_unmatched:
  "\<not> label_matched b_tags key \<Longrightarrow> get_value b_tags key = Inr Null"
proof -
  assume "\<not> label_matched b_tags key"
  then have "List.find (\<lambda>(b, sib). py_in key (get_text b)) b_tags = None"
    by (auto simp: label_matched_def find_None_iff)
  then show ?thesis by (simp add: get_value_def)
qed

lemma get_value_plain:
  assumes "\<not> followed_by_tag b_tags key"
  shows "get_value b_tags key = Inr Null \<or> (\<exists>s. get_value b_tags key = Inr (Str s))"
proof (cases "List.find (\<lambda>(b, sib). py_in key (get_text b)) b_tags")
  case None
  then show ?thesis by (simp add: get_value_def)
next
  case (Some found)
  obtain tag sib where found: "found = (tag, sib)" by (cases found)
  show ?thesis
  proof (cases sib)
    case None
    with Some found show ?thesis by (simp add: get_value_def)
  next
    case (Some nxt)
    note f = \<open>List.find (\<lambda>(b, sib). py_in key (get_text b)) b_tags = Some found\<close>
    show ?thesis
    proof (cases nxt)
      case (Tag n a ks)
      with f found Some assms show ?thesis by (simp add: followed_by_tag_def)
    next
      case (NavigableString s)
      with f found Some show ?thesis by (simp add: get_value_def)
    next
      case (Comment s)
      with f found Some show ?thesis by (simp add: get_value_def)
    qed
  qed
qed

lemma guarded_search_plain:
  assumes "v = Null \<or> (\<exists>s. v = Str s)"
  shows "\<exists>w. guarded_search re_search v = Inr w"
  using assms by (auto simp: guarded_search_def)

lemma guarded_search_Null: "guarded_search re_search Null = Inr Null"
  by (simp add: guarded_search_def)

lemma molsoft_parse_soup_Inr:
  assumes "molsoft_parse_soup soup smiles = Inr df"
  shows "\<exists>logs_text logs_val bbb_text bbb_score formula weight hba hbd logp psa vol pka stereo.
           get_value (find_all_b soup) ''MolLogS :'' = Inr logs_text
           \<and> guarded_search search_logs logs_text = Inr logs_val
           \<and> get_value (find_all_b soup) ''BBB Score :'' = Inr bbb_text
           \<and> guarded_search search_bbb bbb_text = Inr bbb_score
           \<and> get_value (find_all_b soup) ''Molecular formula:'' = Inr formula
           \<and> get_value (find_all_b soup) ''Molecular weight:'' = Inr weight
           \<and> get_value (find_all_b soup) ''Number of HBA:'' = Inr hba
           \<and> get_value (find_all_b soup) ''Number of HBD:'' = Inr hbd
           \<and> get_value (find_all_b soup) ''MolLogP :'' = Inr logp
           \<and> get_value (find_all_b soup) ''MolPSA :'' = Inr psa
           \<and> get_value (find_all_b soup) ''MolVol :'' = Inr vol
           \<and> get_value (find_all_b soup) ''pKa of most Basic/Acidic group :'' = Inr pka
           \<and> get_value (find_all_b soup) ''Number of stereo centers:'' = Inr stereo
           \<and> df = \<lparr>columns = molsoft_columns,
                    rows = [[Str smiles, formula, weight, hba, hbd, logp, logs_val, psa, vol, pka,
                             bbb_score, stereo]]\<rparr>"
  using assms
  by (simp add: molsoft_parse_soup_def and_then_def Let_def split: sum.splits)

lemma molsoft_row_cells:
  "cell_at molsoft_columns [c0, c1, c2, c3, c4, c5, c6, c7, c8, c9, c10, c11] ''SMILES'' = c0"
  "cell_at molsoft_columns [c0, c1, c2, c3, c4, c5, c6, c7, c8, c9, c10, c11] ''Molecular formula'' = c1"
  "cell_at molsoft_columns [c0, c1, c2, c3, c4, c5, c6, c7, c8, c9, c10, c11] ''Molecular weight'' = c2"
  "cell_at molsoft_columns [c0, c1, c2, c3, c4, c5, c6, c7, c8, c9, c10, c11] ''HBA'' = c3"
  "cell_at molsoft_columns [c0, c1, c2, c3, c4, c5, c6, c7, c8, c9, c10, c11] ''HBD'' = c4"
  "cell_at molsoft_columns [c0, c1, c2, c3, c4, c5, c6, c7, c8, c9, c10, c11] ''MolLogP'' = c5"
  "cell_at molsoft_columns [c0, c1, c2, c3, c4, c5, c6, c7, c8, c9, c10, c11] ''MolLogS'' = c6"
  "cell_at molsoft_columns [c0, c1, c2, c3, c4, c5, c6, c7, c8, c9, c10, c11] ''MolPSA'' = c7"
  "cell_at molsoft_columns [c0, c1, c2, c3, c4, c5, c6, c7, c8, c9, c10, c11] ''MolVol'' = c8"
  "cell_at molsoft_columns [c0, c1, c2, c3, c4, c5, c6, c7, c8, c9, c10, c11] ''pKa'' = c9"
  "cell_at molsoft_columns [c0, c1, c2, c3, c4, c5, c6, c7, c8, c9, c10, c11] ''BBB Score'' = c10"
  "cell_at molsoft_columns [c0, c1, c2, c3, c4, c5, c6, c7, c8, c9, c10, c11]
     ''Number of stereo centers'' = c11"
  by (simp_all add: cell_at_def molsoft_columns_def)

lemma protox_row_cells:
  "cell_at protox_columns [c0, c1, c2, c3, c4] ''SMILES'' = c0"
  "cell_at protox_columns [c0, c1, c2, c3, c4] ''Predicted LD50'' = c1"
  "cell_at protox_columns [c0, c1, c2, c3, c4] ''Toxicity Class'' = c2"
  "cell_at protox_columns [c0, c1, c2, c3, c4] ''Average Similarity'' = c3"
  "cell_at protox_columns [c0, c1, c2, c3, c4] ''Prediction Accuracy'' = c4"
  by (simp_all add: cell_at_def protox_columns_def)

lemma protox_parse_soup_total:
  "\<exists>row. protox_parse_soup soup smiles = \<lparr>columns = protox_columns, rows = [row]\<rparr>
         \<and> length row = length protox_columns
         \<and> cell_at protox_columns row ''SMILES'' = Str smiles
         \<and> (\<forall>(c, label) \<in> set protox_fields.
               \<not> h1_matches soup label \<longrightarrow> cell_at protox_columns row c = Null)"
proof -
  let ?row = "[Str smiles,
               extract_text soup ''Predicted LD50'',
               extract_text soup ''Predicted Toxicity Class'',
               extract_text soup ''Average similarity'',
               extract_text soup ''Prediction accuracy'']"
  have a: "protox_parse_soup soup smiles = \<lparr>columns = protox_columns, rows = [?row]\<rparr>"
    by (simp add: protox_parse_soup_def)
  have b: "length ?row = length protox_columns" by (simp add: protox_columns_ok)
  have c: "cell_at protox_columns ?row ''SMILES'' = Str smiles" by (rule protox_row_cells)
  have d: "\<forall>(c, label) \<in> set protox_fields.
             \<not> h1_matches soup label \<longrightarrow> cell_at protox_columns ?row c = Null"
    by (simp add: protox_fields_def protox_row_cells extract_text_unmatched)
  from a b c d show ?thesis by blast
qed

lemma molsoft_parse_soup_unmatched:
  assumes "molsoft_parse_soup soup smiles = Inr df"
  shows "\<exists>row. df = \<lparr>columns = molsoft_columns, rows = [row]\<rparr>
         \<and> length row = length molsoft_columns
         \<and> cell_at molsoft_columns row ''SMILES'' = Str smiles
         \<and> (\<forall>(c, key) \<in> set molsoft_fields.
               \<not> label_matched (find_all_b soup) key \<longrightarrow> cell_at molsoft_columns row c = Null)"
proof -
  from molsoft_parse_soup_Inr [OF assms]
  obtain logs_text logs_val bbb_text bbb_score formula weight hba hbd logp psa vol pka stereo
    where g: "get_value (find_all_b soup) ''MolLogS :'' = Inr logs_text"
      "guarded_search search_logs logs_text = Inr logs_val"
      "get_value (find_all_b soup) ''BBB Score :'' = Inr bbb_text"
      "guarded_search search_bbb bbb_text = Inr bbb_score"
      "get_value (find_all_b soup) ''Molecular formula:'' = Inr formula"
      "get_value (find_all_b soup) ''Molecular weight:'' = Inr weight"
      "get_value (find_all_b soup) ''Number of HBA:'' = Inr hba"
      "get_value (find_all_b soup) ''Number of HBD:'' = Inr hbd"
      "get_value (find_all_b soup) ''MolLogP :'' = Inr logp"
      "get_value (find_all_b soup) ''MolPSA :'' = Inr psa"
      "get_value (find_all_b soup) ''MolVol :'' = Inr vol"
      "get_value (find_all_b soup) ''pKa of most Basic/Acidic group :'' = Inr pka"
      "get_value (find_all_b soup) ''Number of stereo centers:'' = Inr stereo"
    and df: "df = \<lparr>columns = molsoft_columns,
                    rows = [[Str smiles, formula, weight, hba, hbd, logp, logs_val, psa, vol, pka,
                             bbb_score, stereo]]\<rparr>"
    by blast
  let ?row = "[Str smiles, formula, weight, hba, hbd, logp, logs_val, psa, vol, pka,
               bbb_score, stereo]"
  have u: "\<And>key v. get_value (find_all_b soup) key = Inr v \<Longrightarrow>
                    \<not> label_matched (find_all_b soup) key \<Longrightarrow> v = Null"
    using get_value_unmatched by fastforce
  have logs: "\<not> label_matched (find_all_b soup) ''MolLogS :'' \<Longrightarrow> logs_val = Null"
    using u [OF g(1)] g(2) by (simp add: guarded_search_Null)
  have bbb: "\<not> label_matched (find_all_b soup) ''BBB Score :'' \<Longrightarrow> bbb_score = Null"
    using u [OF g(3)] g(4) by (simp add: guarded_search_Null)
  have len: "length ?row = length molsoft_columns" by (simp add: molsoft_columns_ok)
  have sm: "cell_at molsoft_columns ?row ''SMILES'' = Str smiles" by (rule molsoft_row_cells)
  have un: "\<forall>(c, key) \<in> set molsoft_fields.
              \<not> label_matched (find_all_b soup) key \<longrightarrow> cell_at molsoft_columns ?row c = Null"
    using logs bbb u [OF g(5)] u [OF g(6)] u [OF g(7)] u [OF g(8)] u [OF g(9)] u [OF g(10)]
      u [OF g(11)] u [OF g(12)] u [OF g(13)]
    by (simp add: molsoft_fields_def molsoft_row_cells)
  from df len sm un show ?thesis by blast
qed

lemma molsoft_parse_soup_returns:
  assumes "\<forall>(c, key) \<in> set molsoft_fields. \<not> followed_by_tag (find_all_b soup) key"
  shows "\<exists>df. molsoft_parse_soup soup smiles = Inr df"
proof -
  have p: "\<And>key. key \<in> snd ` set molsoft_fields \<Longrightarrow>
             get_value (find_all_b soup) key = Inr Null
             \<or> (\<exists>s. get_value (find_all_b soup) key = Inr (Str s))"
    using assms get_value_plain by fastforce
  have keys: "snd ` set molsoft_fields =
      {''Molecular formula:'', ''Molecular weight:'', ''Number of HBA:'', ''Number of HBD:'',
       ''MolLogP :'', ''MolLogS :'', ''MolPSA :'', ''MolVol :'',
       ''pKa of most Basic/Acidic group :'', ''BBB Score :'', ''Number of stereo centers:''}"
    by (simp add: molsoft_fields_def)
  obtain logs_text where l1: "get_value (find_all_b soup) ''MolLogS :'' = Inr logs_text"
    and l2: "logs_text = Null \<or> (\<exists>s. logs_text = Str s)"
    using p [of "''MolLogS :''"] keys by auto
  obtain bbb_text where b1: "get_value (find_all_b soup) ''BBB Score :'' = Inr bbb_text"
    and b2: "bbb_text = Null \<or> (\<exists>s. bbb_text = Str s)"
    using p [of "''BBB Score :''"] keys by auto
  obtain logs_val where l3: "guarded_search search_logs logs_text = Inr logs_val"
    using guarded_search_plain [OF l2] by blast
  obtain bbb_score where b3: "guarded_search search_bbb bbb_text = Inr bbb_score"
    using guarded_search_plain [OF b2] by blast
  obtain formula where v1: "get_value (find_all_b soup) ''Molecular formula:'' = Inr formula"
    using p [of "''Molecular formula:''"] keys by auto
  obtain weight where v2: "get_value (find_all_b soup) ''Molecular weight:'' = Inr weight"
    using p [of "''Molecular weight:''"] keys by auto
  obtain hba where v3: "get_value (find_all_b soup) ''Number of HBA:'' = Inr hba"
    using p [of "''Number of HBA:''"] keys by auto
  obtain hbd where v4: "get_value (find_all_b soup) ''Number of HBD:'' = Inr hbd"
    using p [of "''Number of HBD:''"] keys by auto
  obtain logp where v5: "get_value (find_all_b soup) ''MolLogP :'' = Inr logp"
    using p [of "''MolLogP :''"] keys by auto
  obtain psa where v6: "get_value (find_all_b soup) ''MolPSA :'' = Inr psa"
    using p [of "''MolPSA :''"] keys by auto
  obtain vol where v7: "get_value (find_all_b soup) ''MolVol :'' = Inr vol"
    using p [of "''MolVol :''"] keys by auto
  obtain pka where v8: "get_value (find_all_b soup) ''pKa of most Basic/Acidic group :'' = Inr pka"
    using p [of "''pKa of most Basic/Acidic group :''"] keys by auto
  obtain stereo where v9: "get_value (find_all_b soup) ''Number of stereo centers:'' = Inr stereo"
    using p [of "''Number of stereo centers:''"] keys by auto
  show ?thesis
    by (simp add: molsoft_parse_soup_def and_then_def l1 l3 b1 b3 v1 v2 v3 v4 v5 v6 v7 v8 v9)
qed


text \<open>What the molsoft extractor raises is a \<open>TypeError\<close>.\<close>

lemma get_value_error:
  "get_value b_tags key = Inl err \<Longrightarrow> err = TypeError ''NoneType object is not callable''"
  by (auto simp: get_value_def split: option.splits prod.splits node.splits if_splits)

lemma get_value_bare:
  "followed_by_bare_tag b_tags key \<Longrightarrow>
     get_value b_tags key = Inl (TypeError ''NoneType object is not callable'')"
  by (auto simp: followed_by_bare_tag_def get_value_def
        split: option.splits prod.splits node.splits)

lemma guarded_search_error:
  "guarded_search re_search v = Inl err \<Longrightarrow>
     err = TypeError ''expected string or bytes-like object''"
  by (auto simp: guarded_search_def split: if_splits cell.splits)

lemma molsoft_parse_soup_error:
  "molsoft_parse_soup soup smiles = Inl err \<Longrightarrow> \<exists>m. err = TypeError m"
  by (auto simp: molsoft_parse_soup_def and_then_def Let_def split: sum.splits
        dest!: get_value_error guarded_search_error)

lemma molsoft_parse_soup_bare:
  assumes "\<exists>(c, key) \<in> set molsoft_fields. followed_by_bare_tag (find_all_b soup) key"
  shows "\<exists>m. molsoft_parse_soup soup smiles = Inl (TypeError m)"
proof (cases "molsoft_parse_soup soup smiles")
  case (Inl err)
  with molsoft_parse_soup_error [OF Inl] show ?thesis by blast
next
  case (Inr df)
  from assms obtain c key where k: "(c, key) \<in> set molsoft_fields"
    and b: "followed_by_bare_tag (find_all_b soup) key" by blast
  from get_value_bare [OF b] have "\<forall>v. get_value (find_all_b soup) key \<noteq> Inr v" by simp
  moreover from k have "key \<in> {''Molecular formula:'', ''Molecular weight:'', ''Number of HBA:'',
       ''Number of HBD:'', ''MolLogP :'', ''MolLogS :'', ''MolPSA :'', ''MolVol :'',
       ''pKa of most Basic/Acidic group :'', ''BBB Score :'', ''Number of stereo centers:''}"
    by (auto simp: molsoft_fields_def)
  ultimately show ?thesis
    using molsoft_parse_soup_Inr [OF Inr] by auto
qed

text \<open>
  A document in which the label \<open>Molecular formula:\<close> is directly followed by a line
  break, \<open><b>Molecular formula:</b><br>\<close>: the molsoft extractor raises \<open>TypeError\<close>
  instead of returning a row.
\<close>

theorem molsoft_parse_html_raises:
  "molsoft_parse_soup [Tag ''b'' [] [NavigableString ''Molecular formula:''], Tag ''br'' [] []]
     ''CCO'' = Inl (TypeError ''NoneType object is not callable'')
   \<and> molsoft_parse_html throttling_env ''<b>Molecular formula:</b><br>'' ''CCO''
     = Inl (TypeError ''NoneType object is not callable'')"
  by code_simp

text \<open>
  Claim C10, as the code has it.  For every document and every identifier:
  \<^item> when the parser rejects the document, \<open>parse_html\<close> of protox.py and of molsoft.py
    raise the error of the parser;
  \<^item> when the parser accepts the document, \<open>parse_html\<close> of protox.py returns exactly one
    row, whose SMILES field is the identifier and whose property fields are null for
    every label that no \<open>h1\<close> of the document matches;
  \<^item> when the parser accepts the document and \<open>parse_html\<close> of molsoft.py returns, it
    returns exactly one row, whose SMILES field is the identifier and whose property
    fields are null for every key that no \<open>b\<close> tag of the document matches;
  \<^item> \<open>parse_html\<close> of molsoft.py returns whenever the parser accepts the document and no
    matched label is directly followed by an element;
  \<^item> \<open>parse_html\<close> of molsoft.py raises \<open>TypeError\<close> whenever some matched label is
    directly followed by an element that has no descendant tag named \<open>strip\<close>.
\<close>

theorem parse_html_one_row:
  "(\<forall>err. html_parser e html = Inl err \<longrightarrow>
      protox_parse_html e html smiles = Inl err \<and> molsoft_parse_html e html smiles = Inl err)
   \<and> (\<forall>soup. html_parser e html = Inr soup \<longrightarrow>
        (\<exists>row. protox_parse_html e html smiles = Inr \<lparr>columns = protox_columns, rows = [row]\<rparr>
           \<and> length row = length protox_columns
           \<and> cell_at protox_columns row ''SMILES'' = Str smiles
           \<and> (\<forall>(c, label) \<in> set protox_fields.
                 \<not> h1_matches soup label \<longrightarrow> cell_at protox_columns row c = Null))
        \<and> (\<forall>df. molsoft_parse_html e html smiles = Inr df \<longrightarrow>
             (\<exists>row. df = \<lparr>columns = molsoft_columns, rows = [row]\<rparr>
                \<and> length row = length molsoft_columns
                \<and> cell_at molsoft_columns row ''SMILES'' = Str smiles
                \<and> (\<forall>(c, key) \<in> set molsoft_fields.
                      \<not> label_matched (find_all_b soup) key \<longrightarrow>
                      cell_at molsoft_columns row c = Null)))
        \<and> ((\<forall>(c, key) \<in> set molsoft_fields. \<not> followed_by_tag (find_all_b soup) key) \<longrightarrow>
             (\<exists>df. molsoft_parse_html e html smiles = Inr df))
        \<and> ((\<exists>(c, key) \<in> set molsoft_fields. followed_by_bare_tag (find_all_b soup) key) \<longrightarrow>
             (\<exists>m. molsoft_parse_html e html smiles = Inl (TypeError m))))"
proof (intro conjI allI impI)
  fix err assume "html_parser e html = Inl err"
  then show "protox_parse_html e html smiles = Inl err"
    and "molsoft_parse_html e html smiles = Inl err"
    by (simp_all add: protox_parse_html_def molsoft_parse_html_def)
next
  fix soup assume s: "html_parser e html = Inr soup"
  then have p: "protox_parse_html e html smiles = Inr (protox_parse_soup soup smiles)"
    and m: "molsoft_parse_html e html smiles = molsoft_parse_soup soup smiles"
    by (simp_all add: protox_parse_html_def molsoft_parse_html_def)
  show "\<exists>row. protox_parse_html e html smiles = Inr \<lparr>columns = protox_columns, rows = [row]\<rparr>
           \<and> length row = length protox_columns
           \<and> cell_at protox_columns row ''SMILES'' = Str smiles
           \<and> (\<forall>(c, label) \<in> set protox_fields.
                 \<not> h1_matches soup label \<longrightarrow> cell_at protox_columns row c = Null)"
    unfolding p using protox_parse_soup_total [of soup smiles] by auto
  {
    fix df assume "molsoft_parse_html e html smiles = Inr df"
    then show "\<exists>row. df = \<lparr>columns = molsoft_columns, rows = [row]\<rparr>
                \<and> length row = length molsoft_columns
                \<and> cell_at molsoft_columns row ''SMILES'' = Str smiles
                \<and> (\<forall>(c, key) \<in> set molsoft_fields.
                      \<not> label_matched (find_all_b soup) key \<longrightarrow>
                      cell_at molsoft_columns row c = Null)"
      unfolding m by (rule molsoft_parse_soup_unmatched)
  }
  {
    assume "\<forall>(c, key) \<in> set molsoft_fields. \<not> followed_by_tag (find_all_b soup) key"
    then show "\<exists>df. molsoft_parse_html e html smiles = Inr df"
      unfolding m by (rule molsoft_parse_soup_returns)
  }
  {
    assume "\<exists>(c, key) \<in> set molsoft_fields. followed_by_bare_tag (find_all_b soup) key"
    then show "\<exists>m. molsoft_parse_html e html smiles = Inl (TypeError m)"
      unfolding m by (rule molsoft_parse_soup_bare)
  }
qed

theorem parse_html_one_row_witness:
  "(\<exists>row. molsoft_parse_html throttling_env label_value_page ''CCO''
             = Inr \<lparr>columns = molsoft_columns, rows = [row]\<rparr>
        \<and> cell_at molsoft_columns row ''SMILES'' = Str ''CCO''
        \<and> cell_at molsoft_columns row ''MolLogP'' = Null)
   \<and> (\<exists>row. protox_parse_html throttling_env result_page ''CCO''
             = Inr \<lparr>columns = protox_columns, rows = [row]\<rparr>
        \<and> cell_at protox_columns row ''SMILES'' = Str ''CCO''
        \<and> cell_at protox_columns row ''Toxicity Class'' = Null)
   \<and> (\<exists>m. molsoft_parse_html throttling_env break_page ''CCO'' = Inl (TypeError m))
   \<and> (\<exists>m. protox_parse_html throttling_env rejected_page ''CCO'' = Inl (ParserRejectedMarkup m))"
proof -
  have pr: "html_parser throttling_env result_page = Inr result_soup"
    and pl: "html_parser throttling_env label_value_page = Inr label_value_soup"
    and pb: "html_parser throttling_env break_page = Inr break_soup"
    and pj: "\<exists>m. html_parser throttling_env rejected_page = Inl (ParserRejectedMarkup m)"
    by (simp_all add: throttling_env_def example_parser_def result_page_def label_value_page_def
          break_page_def rejected_page_def)
  note t = parse_html_one_row [of throttling_env result_page "''CCO''"]
  note u = parse_html_one_row [of throttling_env label_value_page "''CCO''"]
  note v = parse_html_one_row [of throttling_env break_page "''CCO''"]
  note w = parse_html_one_row [of throttling_env rejected_page "''CCO''"]
  have b: "find_all_b label_value_soup
             = [(Tag ''b'' [] [NavigableString ''Molecular formula:''],
                 Some (NavigableString '' C2 H6 O ''))]"
    by (simp add: find_all_b_def label_value_soup_def)
  have nf: "\<forall>(c, key) \<in> set molsoft_fields. \<not> followed_by_tag (find_all_b label_value_soup) key"
    unfolding b by (simp add: molsoft_fields_def followed_by_tag_def get_text_def)
  have nm: "\<not> label_matched (find_all_b label_value_soup) ''MolLogP :''"
    unfolding b by (simp add: label_matched_def get_text_def)
  have f: "(''MolLogP'', ''MolLogP :'') \<in> set molsoft_fields"
    by (simp add: molsoft_fields_def)
  from u pl nf obtain df where df: "molsoft_parse_html throttling_env label_value_page ''CCO'' = Inr df"
    by blast
  with u pl obtain row where row: "df = \<lparr>columns = molsoft_columns, rows = [row]\<rparr>"
      "cell_at molsoft_columns row ''SMILES'' = Str ''CCO''"
      "\<forall>(c, key) \<in> set molsoft_fields.
          \<not> label_matched (find_all_b label_value_soup) key \<longrightarrow> cell_at molsoft_columns row c = Null"
    by blast
  from row(3) f nm have "cell_at molsoft_columns row ''MolLogP'' = Null" by blast
  with df row(1,2) have m: "\<exists>row. molsoft_parse_html throttling_env label_value_page ''CCO''
                                  = Inr \<lparr>columns = molsoft_columns, rows = [row]\<rparr>
        \<and> cell_at molsoft_columns row ''SMILES'' = Str ''CCO''
        \<and> cell_at molsoft_columns row ''MolLogP'' = Null"
    by blast
  have nh: "\<not> h1_matches result_soup ''Predicted Toxicity Class''"
    by (simp add: h1_matches_def result_soup_def descendants_list_def)
  have g: "(''Toxicity Class'', ''Predicted Toxicity Class'') \<in> set protox_fields"
    by (simp add: protox_fields_def)
  from t pr obtain prow where prow:
      "protox_parse_html throttling_env result_page ''CCO''
         = Inr \<lparr>columns = protox_columns, rows = [prow]\<rparr>"
      "cell_at protox_columns prow ''SMILES'' = Str ''CCO''"
      "\<forall>(c, label) \<in> set protox_fields.
          \<not> h1_matches result_soup label \<longrightarrow> cell_at protox_columns prow c = Null"
    by blast
  from prow(3) g nh have "cell_at protox_columns prow ''Toxicity Class'' = Null" by blast
  with prow(1,2) have x: "\<exists>row. protox_parse_html throttling_env result_page ''CCO''
                                  = Inr \<lparr>columns = protox_columns, rows = [row]\<rparr>
        \<and> cell_at protox_columns row ''SMILES'' = Str ''CCO''
        \<and> cell_at protox_columns row ''Toxicity Class'' = Null"
    by blast
  have bb: "find_all_b break_soup
             = [(Tag ''b'' [] [NavigableString ''Molecular formula:''], Some (Tag ''br'' [] []))]"
    by (simp add: find_all_b_def break_soup_def)
  have bare: "\<exists>(c, key) \<in> set molsoft_fields. followed_by_bare_tag (find_all_b break_soup) key"
    unfolding bb
    by (simp add: molsoft_fields_def followed_by_bare_tag_def get_text_def descendants_list_def)
  from v pb bare have y: "\<exists>m. molsoft_parse_html throttling_env break_page ''CCO'' = Inl (TypeError m)"
    by blast
  from w pj have z: "\<exists>m. protox_parse_html throttling_env rejected_page ''CCO''
                          = Inl (ParserRejectedMarkup m)"
    by blast
  from m x y z show ?thesis by (intro conjI)
qed

section \<open>The two-phase search of knapsack.py\<close>

lemma main_columns_ok:
  "distinct main_columns" "length main_columns = 6" "''C_ID'' \<in> set main_columns"
  by (simp_all add: main_columns_def)

lemma detail_columns_ok:
  "''C_ID'' \<in> set detail_columns"
  "filter (\<lambda>c. c \<noteq> ''C_ID'') detail_columns
     = [''InChIKey'', ''InChICode'', ''SMILES'', ''image_url'', ''Organism'']"
  by (simp_all add: detail_columns_def)

lemma widest_row:
  "r \<in> set data \<Longrightarrow> length r \<le> foldr (\<lambda>r m. max (length r) m) data 0"
  by (induction data) auto

lemma pd_DataFrame_rows:
  assumes "pd_DataFrame cols data = Inr df"
  shows "columns df = cols \<and> (\<forall>r \<in> set (rows df). length r = length cols)"
proof (cases "data = []")
  case True
  with assms show ?thesis by (auto simp: pd_DataFrame_def)
next
  case False
  with assms have w: "foldr (\<lambda>r m. max (length r) m) data 0 = length cols"
    and df: "df = \<lparr>columns = cols, rows = map (\<lambda>r. r @ replicate (length cols - length r) Null) data\<rparr>"
    by (auto simp: pd_DataFrame_def split: if_splits)
  have "\<forall>r \<in> set data. length r \<le> length cols"
    using widest_row [of _ data] w by auto
  with df show ?thesis by auto
qed

lemma parse_main_table_rows:
  assumes "parse_main_table e html = Inr df" and "\<not> df_empty df"
  shows "columns df = main_columns \<and> (\<forall>r \<in> set (rows df). length r = 6)"
proof -
  from assms(1) obtain soup where soup: "parse_main_soup soup = Inr df"
    by (auto simp: parse_main_table_def and_then_def split: sum.splits)
  show ?thesis
  proof (cases "soup_find ''table'' soup")
    case None
    with soup have "df = empty_frame" by (simp add: parse_main_soup_def)
    with assms(2) show ?thesis by (simp add: df_empty_def empty_frame_def)
  next
    case (Some table)
    with soup have "pd_DataFrame main_columns
        (map (\<lambda>row. map (\<lambda>col. Str (get_text_strip col)) (find_all ''td'' row))
           (find_all ''tr'' table)) = Inr df"
      by (simp add: parse_main_soup_def)
    from pd_DataFrame_rows [OF this] show ?thesis by (simp add: main_columns_ok)
  qed
qed

lemma detail_dict_cells: "detail_dict cid d = cid # detail_cells d"
  by (simp add: detail_dict_def detail_cells_def)

lemma detail_row_key: "cell_at detail_columns (cid # detail_cells d) ''C_ID'' = cid"
  by (simp add: cell_at_def detail_columns_def detail_cells_def)

lemma detail_row_rest:
  "map (cell_at detail_columns (cid # detail_cells d))
     [''InChIKey'', ''InChICode'', ''SMILES'', ''image_url'', ''Organism''] = detail_cells d"
  by (simp add: cell_at_def detail_columns_def detail_cells_def)

lemma null_cells: "detail_cells null_fields = replicate 5 Null"
  by (simp add: detail_cells_def null_fields_def numeral_eq_Suc)

text \<open>
  What \<open>get_detail_by_cid\<close> returns when the failure line of the lookup renders: the dict
  of the C_ID, with nulls when the lookup failed and with the fields extracted from the
  page when it succeeded.
\<close>

lemma get_detail_by_cid_shape:
  assumes "\<forall>err. get_detail_try e job cid = Inl err \<longrightarrow>
             markup_error e (detail_failed_line cid err) = None"
  shows "\<exists>d. get_detail_by_cid e job cid = Inr (cid # detail_cells d)
       \<and> (detail_lookup_fails e job cid \<longrightarrow> detail_cells d = replicate 5 Null)
       \<and> (\<not> detail_lookup_fails e job cid \<longrightarrow>
            (\<exists>s page soup. cid = Str s
               \<and> knapsack_fetch_html e job (DETAIL_URL @ quote e s) = Inr page
               \<and> html_parser e page = Inr soup
               \<and> d = extract_detail soup))"
proof (cases "get_detail_try e job cid")
  case (Inl err)
  with assms have "markup_error e (detail_failed_line cid err) = None" by simp
  with Inl have "get_detail_by_cid e job cid = Inr (cid # detail_cells null_fields)"
    by (simp add: get_detail_by_cid_def detail_dict_cells)
  moreover from Inl have "detail_lookup_fails e job cid" by (simp add: detail_lookup_fails_def)
  ultimately show ?thesis using null_cells by blast
next
  case (Inr d)
  then obtain s page soup where
    "cid = Str s" "knapsack_fetch_html e job (DETAIL_URL @ quote e s) = Inr page"
    "html_parser e page = Inr soup" "d = extract_detail soup"
    by (auto simp: get_detail_try_def and_then_def split: cell.splits sum.splits)
  moreover from Inr have "get_detail_by_cid e job cid = Inr (cid # detail_cells d)"
    by (simp add: get_detail_by_cid_def detail_dict_cells)
  moreover from Inr have "\<not> detail_lookup_fails e job cid" by (simp add: detail_lookup_fails_def)
  ultimately show ?thesis by blast
qed

lemma collect_details_all:
  "\<forall>f \<in> set fs. \<not> isl f \<Longrightarrow> collect_details fs = Inr (map projr fs)"
proof (induction fs)
  case Nil
  then show ?case by simp
next
  case (Cons f fs)
  then obtain r where "f = Inr r" by (cases f) auto
  with Cons show ?case by simp
qed

lemma detail_futures_nth:
  assumes "i < length cids"
  shows "detail_futures e cids ! i = get_detail_by_cid e (Suc i) (cids ! i)"
  using assms by (simp add: detail_futures_def nth_enumerate_eq)

lemma filter_unique_key:
  assumes "distinct (map f xs)" and "x \<in> set xs"
  shows "filter (\<lambda>y. f y = f x) xs = [x]"
  using assms
proof (induction xs)
  case Nil
  then show ?case by simp
next
  case (Cons a xs)
  show ?case
  proof (cases "a = x")
    case True
    with Cons.prems(1) have "f x \<notin> f ` set xs" by simp
    then have "\<forall>y \<in> set xs. f y \<noteq> f x" by (metis imageI)
    then have "filter (\<lambda>y. f y = f x) xs = []" by (simp add: filter_empty_conv)
    with True show ?thesis by simp
  next
    case False
    with Cons.prems have x: "x \<in> set xs" and "f a \<noteq> f x" by auto
    with Cons.IH Cons.prems(1) show ?thesis by simp
  qed
qed

lemma take_rows_back:
  assumes "\<forall>l \<in> set L. length l = n \<and> (\<exists>x. g l = [l @ x])"
  shows "map (take n) (concat (map g L)) = L"
  using assms by (induction L) auto

lemma search_unfold:
  assumes perm: "\<forall>xs. mset (sched xs) = mset xs"
    and workers: "0 < ks_max_workers self"
    and line: "markup_error e (search_line (keyword self) (search_type self)) = None"
    and listing: "knapsack_fetch_html e 0 (build_url e self) = Inr html"
    and table: "parse_main_table e html = Inr df_main"
    and nonempty: "\<not> df_empty df_main"
    and returned: "\<forall>f \<in> set (detail_futures e
                      (map (\<lambda>r. cell_at (columns df_main) r ''C_ID'') (rows df_main))). \<not> isl f"
  shows "search e self sched =
     Inr \<lparr>columns = columns df_main @ [''InChIKey'', ''InChICode'', ''SMILES'', ''image_url'', ''Organism''],
          rows = concat (map (\<lambda>l.
            case filter (\<lambda>r. cell_at detail_columns r ''C_ID'' = cell_at (columns df_main) l ''C_ID'')
                   (map projr (sched (detail_futures e
                      (map (\<lambda>r. cell_at (columns df_main) r ''C_ID'') (rows df_main))))) of
              [] \<Rightarrow> [l @ replicate 5 Null]
            | m # ms \<Rightarrow>
                map (\<lambda>r. l @ map (cell_at detail_columns r)
                                [''InChIKey'', ''InChICode'', ''SMILES'', ''image_url'', ''Organism''])
                  (m # ms))
            (rows df_main))\<rparr>"
proof -
  let ?F = "detail_futures e (map (\<lambda>r. cell_at (columns df_main) r ''C_ID'') (rows df_main))"
  have cols: "columns df_main = main_columns"
    using parse_main_table_rows [OF table nonempty] by simp
  have key: "''C_ID'' \<in> set (columns df_main)" by (simp add: cols main_columns_ok)
  have col: "column df_main ''C_ID''
               = Inr (map (\<lambda>r. cell_at (columns df_main) r ''C_ID'') (rows df_main))"
    using key by (simp add: column_def)
  have five: "length [''InChIKey'', ''InChICode'', ''SMILES'', ''image_url'', ''Organism''] = 5"
    by simp
  have ex: "executor_error (ks_max_workers self) = None"
    using workers by (simp add: executor_error_def)
  from perm have "set (sched ?F) = set ?F" by (metis set_mset_mset)
  with returned have "\<forall>f \<in> set (sched ?F). \<not> isl f" by simp
  then have coll: "collect_details (sched ?F) = Inr (map projr (sched ?F))"
    by (rule collect_details_all)
  have "search e self sched =
          pd_merge_left df_main
            \<lparr>columns = detail_columns, rows = map projr (sched ?F)\<rparr> ''C_ID''"
    using nonempty by (simp add: search_def and_then_def line listing table col ex coll)
  also have "\<dots> =
     Inr \<lparr>columns = columns df_main @ [''InChIKey'', ''InChICode'', ''SMILES'', ''image_url'', ''Organism''],
          rows = concat (map (\<lambda>l.
            case filter (\<lambda>r. cell_at detail_columns r ''C_ID'' = cell_at (columns df_main) l ''C_ID'')
                   (map projr (sched ?F)) of
              [] \<Rightarrow> [l @ replicate 5 Null]
            | m # ms \<Rightarrow>
                map (\<lambda>r. l @ map (cell_at detail_columns r)
                                [''InChIKey'', ''InChICode'', ''SMILES'', ''image_url'', ''Organism''])
                  (m # ms))
            (rows df_main))\<rparr>"
    by (simp only: pd_merge_left_def frame.select_convs key detail_columns_ok five
          simp_thms if_True cong: list.case_cong)
  finally show ?thesis .
qed

text \<open>
  A listing of two rows; the detail page of the first row is served and offers the
  InChIKey only, the lookup of the second row fails.  The lookup of the first row
  succeeds, and four of its five detail fields are null in the table.
\<close>

theorem successful_lookup_leaves_fields_null:
  "get_detail_try (knapsack_env partial_soup) 1 (Str ''C00001'')
     = Inr (null_fields\<lparr>InChIKey := Str ''WSFSSNUMVMOOMR-UHFFFAOYSA-N''\<rparr>)
   \<and> search (knapsack_env partial_soup) ginkgo_search (\<lambda>xs. xs)
     = Inr \<lparr>columns = main_columns
                @ [''InChIKey'', ''InChICode'', ''SMILES'', ''image_url'', ''Organism''],
            rows = [listing_rows ! 0 @ [Str ''WSFSSNUMVMOOMR-UHFFFAOYSA-N'', Null, Null, Null, Null],
                    listing_rows ! 1 @ [Null, Null, Null, Null, Null]]\<rparr>"
  by code_simp

text \<open>
  Claim C9, as the code has it.  When the search line renders, \<open>max_workers\<close> is
  positive, the listing has been fetched and parsed into a non-empty table, and the
  failure line of every failed lookup renders, then, in whatever order the detail
  lookups complete, \<open>search\<close> returns the left join of the listing with the detail dicts
  on \<open>C_ID\<close>:
  \<^item> the columns are those of the listing followed by the five detail columns;
  \<^item> every listing row is retained: the output has the row extended with the detail
    fields of its own lookup, which are all null when the lookup failed and are the
    fields extracted from the detail page when it succeeded (a field that the page does
    not offer is null);
  \<^item> every output row extends a listing row;
  \<^item> when the C_IDs of the listing are distinct, the output rows are the listing rows in
    listing order, each extended once.
\<close>

theorem search_keeps_every_listing_row:
  assumes perm: "\<forall>xs. mset (sched xs) = mset xs"
    and workers: "0 < ks_max_workers self"
    and line: "markup_error e (search_line (keyword self) (search_type self)) = None"
    and listing: "knapsack_fetch_html e 0 (build_url e self) = Inr html"
    and table: "parse_main_table e html = Inr df_main"
    and nonempty: "\<not> df_empty df_main"
    and logs: "\<forall>i < length (rows df_main). \<forall>err.
                 get_detail_try e (Suc i) (cell_at (columns df_main) (rows df_main ! i) ''C_ID'')
                   = Inl err \<longrightarrow>
                 markup_error e (detail_failed_line
                   (cell_at (columns df_main) (rows df_main ! i) ''C_ID'') err) = None"
  shows "\<exists>out. search e self sched = Inr out
     \<and> columns out = columns df_main
          @ [''InChIKey'', ''InChICode'', ''SMILES'', ''image_url'', ''Organism'']
     \<and> (\<forall>i < length (rows df_main).
          \<exists>d. get_detail_by_cid e (Suc i) (cell_at (columns df_main) (rows df_main ! i) ''C_ID'')
                 = Inr (cell_at (columns df_main) (rows df_main ! i) ''C_ID'' # detail_cells d)
             \<and> rows df_main ! i @ detail_cells d \<in> set (rows out)
             \<and> (detail_lookup_fails e (Suc i)
                    (cell_at (columns df_main) (rows df_main ! i) ''C_ID'') \<longrightarrow>
                  detail_cells d = replicate 5 Null)
             \<and> (\<not> detail_lookup_fails e (Suc i)
                    (cell_at (columns df_main) (rows df_main ! i) ''C_ID'') \<longrightarrow>
                  (\<exists>s page soup. cell_at (columns df_main) (rows df_main ! i) ''C_ID'' = Str s
                     \<and> knapsack_fetch_html e (Suc i) (DETAIL_URL @ quote e s) = Inr page
                     \<and> html_parser e page = Inr soup
                     \<and> d = extract_detail soup)))
     \<and> (\<forall>r \<in> set (rows out). take (length (columns df_main)) r \<in> set (rows df_main))
     \<and> (distinct (map (\<lambda>l. cell_at (columns df_main) l ''C_ID'') (rows df_main)) \<longrightarrow>
          map (take (length (columns df_main))) (rows out) = rows df_main)"
proof -
  define key where "key = (\<lambda>l. cell_at (columns df_main) l ''C_ID'')"
  define rk where "rk = (\<lambda>r. cell_at detail_columns r ''C_ID'')"
  define rest where "rest = (\<lambda>r. map (cell_at detail_columns r)
                       [''InChIKey'', ''InChICode'', ''SMILES'', ''image_url'', ''Organism''])"
  define L where "L = rows df_main"
  define F where "F = detail_futures e (map key L)"
  define D where "D = map projr F"
  define R where "R = map projr (sched F)"
  define g where "g = (\<lambda>l. case filter (\<lambda>r. rk r = key l) R of
                              [] \<Rightarrow> [l @ replicate 5 Null]
                            | m # ms \<Rightarrow> map (\<lambda>r. l @ rest r) (m # ms))"
  define out where "out = \<lparr>columns = columns df_main
                              @ [''InChIKey'', ''InChICode'', ''SMILES'', ''image_url'', ''Organism''],
                            rows = concat (map g L)\<rparr>"
  have lenF: "length F = length L" by (simp add: F_def detail_futures_def)
  have shape: "\<exists>d. get_detail_by_cid e (Suc i) (key (L ! i)) = Inr (key (L ! i) # detail_cells d)
             \<and> (detail_lookup_fails e (Suc i) (key (L ! i)) \<longrightarrow> detail_cells d = replicate 5 Null)
             \<and> (\<not> detail_lookup_fails e (Suc i) (key (L ! i)) \<longrightarrow>
                  (\<exists>s page soup. key (L ! i) = Str s
                     \<and> knapsack_fetch_html e (Suc i) (DETAIL_URL @ quote e s) = Inr page
                     \<and> html_parser e page = Inr soup
                     \<and> d = extract_detail soup))"
    if "i < length L" for i
  proof (rule get_detail_by_cid_shape)
    show "\<forall>err. get_detail_try e (Suc i) (key (L ! i)) = Inl err \<longrightarrow>
            markup_error e (detail_failed_line (key (L ! i)) err) = None"
      using logs that unfolding key_def L_def by blast
  qed
  have Fi: "F ! i = get_detail_by_cid e (Suc i) (key (L ! i))" if "i < length L" for i
    using detail_futures_nth [of i "map key L" e] that by (simp add: F_def)
  have returned: "\<forall>f \<in> set F. \<not> isl f"
  proof
    fix f assume "f \<in> set F"
    then obtain i where i: "i < length L" and f: "f = F ! i"
      using lenF by (metis in_set_conv_nth)
    from shape [OF i] Fi [OF i] f show "\<not> isl f" by auto
  qed
  have s: "search e self sched = Inr out"
    unfolding out_def g_def R_def F_def L_def key_def rk_def rest_def
    by (rule search_unfold [OF perm workers line listing table nonempty])
       (use returned in \<open>simp add: F_def L_def key_def\<close>)
  have wf: "columns df_main = main_columns" "\<forall>l \<in> set L. length l = 6"
    using parse_main_table_rows [OF table nonempty] by (simp_all add: L_def)
  have msetR: "mset R = mset D"
    unfolding R_def D_def using perm by (metis mset_map)
  then have setR: "set R = set D" by (rule mset_eq_setD)
  have lenD: "length D = length L" by (simp add: D_def lenF)
  have g_some: "\<And>l. l \<in> set L \<Longrightarrow> g l = map (\<lambda>r. l @ rest r) (filter (\<lambda>r. rk r = key l) R)
                                   \<or> g l = [l @ replicate 5 Null]"
    by (simp add: g_def split: list.splits)
  have each: "\<forall>i < length L.
          \<exists>d. get_detail_by_cid e (Suc i) (key (L ! i)) = Inr (key (L ! i) # detail_cells d)
             \<and> L ! i @ detail_cells d \<in> set (rows out)
             \<and> (detail_lookup_fails e (Suc i) (key (L ! i)) \<longrightarrow> detail_cells d = replicate 5 Null)
             \<and> (\<not> detail_lookup_fails e (Suc i) (key (L ! i)) \<longrightarrow>
                  (\<exists>s page soup. key (L ! i) = Str s
                     \<and> knapsack_fetch_html e (Suc i) (DETAIL_URL @ quote e s) = Inr page
                     \<and> html_parser e page = Inr soup
                     \<and> d = extract_detail soup))"
  proof (intro allI impI)
    fix i assume i: "i < length L"
    from shape [OF i] obtain d where
      d: "get_detail_by_cid e (Suc i) (key (L ! i)) = Inr (key (L ! i) # detail_cells d)"
         "detail_lookup_fails e (Suc i) (key (L ! i)) \<longrightarrow> detail_cells d = replicate 5 Null"
         "\<not> detail_lookup_fails e (Suc i) (key (L ! i)) \<longrightarrow>
            (\<exists>s page soup. key (L ! i) = Str s
               \<and> knapsack_fetch_html e (Suc i) (DETAIL_URL @ quote e s) = Inr page
               \<and> html_parser e page = Inr soup
               \<and> d = extract_detail soup)"
      by blast
    have Di: "D ! i = key (L ! i) # detail_cells d"
      using Fi [OF i] i d(1) lenF by (simp add: D_def)
    have inR: "key (L ! i) # detail_cells d \<in> set R"
      using Di i lenD setR by (metis nth_mem)
    have rkd: "rk (key (L ! i) # detail_cells d) = key (L ! i)"
      by (simp add: rk_def detail_row_key)
    have restd: "rest (key (L ! i) # detail_cells d) = detail_cells d"
      unfolding rest_def by (rule detail_row_rest)
    from inR rkd have inF: "key (L ! i) # detail_cells d
                          \<in> set (filter (\<lambda>r. rk r = key (L ! i)) R)"
      by simp
    then have "filter (\<lambda>r. rk r = key (L ! i)) R \<noteq> []" by (metis empty_iff empty_set)
    then have gi: "g (L ! i) = map (\<lambda>r. L ! i @ rest r) (filter (\<lambda>r. rk r = key (L ! i)) R)"
      by (simp add: g_def split: list.splits)
    from inF have "L ! i @ rest (key (L ! i) # detail_cells d) \<in> set (g (L ! i))"
      unfolding gi by (metis (no_types, lifting) image_eqI set_map)
    with restd have "L ! i @ detail_cells d \<in> set (g (L ! i))" by simp
    moreover have "L ! i \<in> set L" using i by simp
    ultimately have "L ! i @ detail_cells d \<in> set (rows out)"
      by (auto simp: out_def)
    with d show "\<exists>d. get_detail_by_cid e (Suc i) (key (L ! i)) = Inr (key (L ! i) # detail_cells d)
             \<and> L ! i @ detail_cells d \<in> set (rows out)
             \<and> (detail_lookup_fails e (Suc i) (key (L ! i)) \<longrightarrow> detail_cells d = replicate 5 Null)
             \<and> (\<not> detail_lookup_fails e (Suc i) (key (L ! i)) \<longrightarrow>
                  (\<exists>s page soup. key (L ! i) = Str s
                     \<and> knapsack_fetch_html e (Suc i) (DETAIL_URL @ quote e s) = Inr page
                     \<and> html_parser e page = Inr soup
                     \<and> d = extract_detail soup))"
      by blast
  qed
  have origin: "\<forall>r \<in> set (rows out). take (length (columns df_main)) r \<in> set (rows df_main)"
  proof
    fix r assume "r \<in> set (rows out)"
    then obtain l where l: "l \<in> set L" and r: "r \<in> set (g l)" by (auto simp: out_def)
    from g_some [OF l] r obtain x where "r = l @ x" by auto
    moreover from l wf have "length l = length (columns df_main)" by (simp add: main_columns_ok)
    ultimately show "take (length (columns df_main)) r \<in> set (rows df_main)"
      using l by (simp add: L_def)
  qed
  have keysD: "map rk D = map key L"
  proof (rule nth_equalityI)
    show "length (map rk D) = length (map key L)" by (simp add: lenD)
  next
    fix i assume "i < length (map rk D)"
    then have i: "i < length L" by (simp add: lenD)
    from shape [OF i] obtain d where
      "get_detail_by_cid e (Suc i) (key (L ! i)) = Inr (key (L ! i) # detail_cells d)" by blast
    with Fi [OF i] have "D ! i = key (L ! i) # detail_cells d"
      using i lenF by (simp add: D_def)
    then show "map rk D ! i = map key L ! i"
      using i lenD by (simp add: rk_def detail_row_key)
  qed
  have once: "distinct (map key L) \<longrightarrow> map (take (length (columns df_main))) (rows out) = L"
  proof
    assume dist: "distinct (map key L)"
    have "mset (map rk R) = mset (map rk D)" using msetR by (metis mset_map)
    with keysD dist have distR: "distinct (map rk R)"
      by (metis mset_eq_imp_distinct_iff)
    have "\<forall>l \<in> set L. length l = length (columns df_main) \<and> (\<exists>x. g l = [l @ x])"
    proof
      fix l assume l: "l \<in> set L"
      then have "key l \<in> set (map rk D)" unfolding keysD by simp
      then obtain r where r: "r \<in> set R" "rk r = key l" using setR by auto
      from filter_unique_key [OF distR r(1)] r(2)
      have "filter (\<lambda>y. rk y = key l) R = [r]" by simp
      then have "g l = [l @ rest r]" by (simp add: g_def)
      moreover from l wf have "length l = length (columns df_main)" by (simp add: main_columns_ok)
      ultimately show "length l = length (columns df_main) \<and> (\<exists>x. g l = [l @ x])" by blast
    qed
    from take_rows_back [OF this] show "map (take (length (columns df_main))) (rows out) = L"
      by (simp add: out_def)
  qed
  have c: "columns out = columns df_main
             @ [''InChIKey'', ''InChICode'', ''SMILES'', ''image_url'', ''Organism'']"
    by (simp add: out_def)
  from s c each origin once show ?thesis
    unfolding key_def L_def by blast
qed

lemma listing_parsed:
  "parse_main_table (knapsack_env detail_soup) ''listing''
     = Inr \<lparr>columns = main_columns, rows = listing_rows\<rparr>"
  by code_simp

lemma formaldehyde_lookup:
  "get_detail_try (knapsack_env detail_soup) (Suc 0) (Str ''C00001'') = Inr formaldehyde_detail"
  by code_simp

lemma ethanol_lookup:
  "get_detail_try (knapsack_env detail_soup) (Suc (Suc 0)) (Str ''C00002'')
     = Inl (RequestException (''404 Client Error: Not Found for url: '' @ DETAIL_URL @ ''C00002''))"
  by code_simp

lemma ethanol_line_renders:
  "markup_error (knapsack_env detail_soup)
     (detail_failed_line (Str ''C00002'')
        (RequestException (''404 Client Error: Not Found for url: '' @ DETAIL_URL @ ''C00002'')))
     = None"
  by code_simp

lemma ginkgo_line_renders:
  "markup_error (knapsack_env detail_soup)
     (search_line (keyword ginkgo_search) (search_type ginkgo_search)) = None"
  by code_simp

theorem search_keeps_every_listing_row_witness:
  "\<exists>out. search (knapsack_env detail_soup) ginkgo_search rev = Inr out
     \<and> listing_rows ! 0 @ detail_cells formaldehyde_detail \<in> set (rows out)
     \<and> listing_rows ! 1 @ replicate 5 Null \<in> set (rows out)
     \<and> map (take 6) (rows out) = listing_rows"
proof -
  let ?e = "knapsack_env detail_soup"
  let ?df = "\<lparr>columns = main_columns, rows = listing_rows\<rparr>"
  have perm: "\<forall>xs::(exn + cell list) list. mset (rev xs) = mset xs" by simp
  have workers: "0 < ks_max_workers ginkgo_search" by (simp add: ginkgo_search_def)
  have listing: "knapsack_fetch_html ?e 0 (build_url ?e ginkgo_search) = Inr ''listing''"
    by (simp add: knapsack_fetch_html_def knapsack_env_def)
  have ne: "\<not> df_empty ?df"
    by (simp add: df_empty_def main_columns_def listing_rows_def)
  have k0: "cell_at main_columns (listing_rows ! 0) ''C_ID'' = Str ''C00001''"
    and k1: "cell_at main_columns (listing_rows ! Suc 0) ''C_ID'' = Str ''C00002''"
    by (simp_all add: cell_at_def main_columns_def listing_rows_def)
  have len: "length listing_rows = Suc (Suc 0)" by (simp add: listing_rows_def)
  have logs: "\<forall>i < length (rows ?df). \<forall>err.
                 get_detail_try ?e (Suc i) (cell_at (columns ?df) (rows ?df ! i) ''C_ID'')
                   = Inl err \<longrightarrow>
                 markup_error ?e (detail_failed_line
                   (cell_at (columns ?df) (rows ?df ! i) ''C_ID'') err) = None"
  proof (intro allI impI)
    fix i err
    assume i: "i < length (rows ?df)"
      and f: "get_detail_try ?e (Suc i) (cell_at (columns ?df) (rows ?df ! i) ''C_ID'') = Inl err"
    from i len have "i = 0 \<or> i = Suc 0" by auto
    then show "markup_error ?e (detail_failed_line
                 (cell_at (columns ?df) (rows ?df ! i) ''C_ID'') err) = None"
    proof
      assume "i = 0"
      with f k0 formaldehyde_lookup show ?thesis by simp
    next
      assume "i = Suc 0"
      with f k1 ethanol_lookup ethanol_line_renders show ?thesis by simp
    qed
  qed
  from search_keeps_every_listing_row
         [OF perm workers ginkgo_line_renders listing listing_parsed ne logs]
  obtain out where out: "search ?e ginkgo_search rev = Inr out"
    and each: "\<forall>i < length (rows ?df).
          \<exists>d. get_detail_by_cid ?e (Suc i) (cell_at (columns ?df) (rows ?df ! i) ''C_ID'')
                 = Inr (cell_at (columns ?df) (rows ?df ! i) ''C_ID'' # detail_cells d)
             \<and> rows ?df ! i @ detail_cells d \<in> set (rows out)
             \<and> (detail_lookup_fails ?e (Suc i)
                    (cell_at (columns ?df) (rows ?df ! i) ''C_ID'') \<longrightarrow>
                  detail_cells d = replicate 5 Null)
             \<and> (\<not> detail_lookup_fails ?e (Suc i)
                    (cell_at (columns ?df) (rows ?df ! i) ''C_ID'') \<longrightarrow>
                  (\<exists>s page soup. cell_at (columns ?df) (rows ?df ! i) ''C_ID'' = Str s
                     \<and> knapsack_fetch_html ?e (Suc i) (DETAIL_URL @ quote ?e s) = Inr page
                     \<and> html_parser ?e page = Inr soup
                     \<and> d = extract_detail soup))"
    and once: "distinct (map (\<lambda>l. cell_at (columns ?df) l ''C_ID'') (rows ?df)) \<longrightarrow>
          map (take (length (columns ?df))) (rows out) = rows ?df"
    by blast
  have ok0: "\<not> detail_lookup_fails ?e (Suc 0) (Str ''C00001'')"
    by (simp add: detail_lookup_fails_def formaldehyde_lookup)
  have bad1: "detail_lookup_fails ?e (Suc (Suc 0)) (Str ''C00002'')"
    by (simp add: detail_lookup_fails_def ethanol_lookup)
  from each len have "\<exists>d. get_detail_by_cid ?e (Suc 0) (cell_at main_columns (listing_rows ! 0) ''C_ID'')
                 = Inr (cell_at main_columns (listing_rows ! 0) ''C_ID'' # detail_cells d)
             \<and> listing_rows ! 0 @ detail_cells d \<in> set (rows out)"
    by simp blast
  then obtain d0 where d0: "get_detail_by_cid ?e (Suc 0) (Str ''C00001'')
                              = Inr (Str ''C00001'' # detail_cells d0)"
      "listing_rows ! 0 @ detail_cells d0 \<in> set (rows out)"
    unfolding k0 by blast
  have "get_detail_by_cid ?e (Suc 0) (Str ''C00001'')
          = Inr (Str ''C00001'' # detail_cells formaldehyde_detail)"
    by (simp add: get_detail_by_cid_def formaldehyde_lookup detail_dict_cells)
  with d0 have a: "listing_rows ! 0 @ detail_cells formaldehyde_detail \<in> set (rows out)"
    by simp
  from each len have "\<exists>d. listing_rows ! Suc 0 @ detail_cells d \<in> set (rows out)
             \<and> (detail_lookup_fails ?e (Suc (Suc 0))
                    (cell_at main_columns (listing_rows ! Suc 0) ''C_ID'') \<longrightarrow>
                  detail_cells d = replicate 5 Null)"
    by simp blast
  with bad1 k1 have b: "listing_rows ! 1 @ replicate 5 Null \<in> set (rows out)"
    by auto
  have "distinct (map (\<lambda>l. cell_at main_columns l ''C_ID'') listing_rows)"
    by (simp add: cell_at_def main_columns_def listing_rows_def)
  with once have c: "map (take 6) (rows out) = listing_rows"
    by (simp add: main_columns_ok)
  from out a b c show ?thesis by blast
qed

end
